theory Spec2Isabelle
  imports Main "HOL-Library.FSet"
begin

section \<open>BSON object ids and timestamps\<close>

text \<open>
  \<^verbatim>\<open>bson.ObjectId(s)\<close> takes a string of 24 characters and hands it to
  \<^verbatim>\<open>bytes.fromhex\<close>, which reads two hexadecimal digits for each byte and skips
  ASCII white space in front of a byte; on any other string it raises
  \<^verbatim>\<open>InvalidId\<close>. \<^verbatim>\<open>str(oid)\<close> prints the bytes as hexadecimal digits in lower
  case. An object id is kept as that lower-case string (24 digits, fewer when the
  string held white space); parsing is an option, \<open>None\<close> standing for the raised
  exception. Strings are lists of characters, one \<open>char\<close> per code point (Python's
  \<^verbatim>\<open>len\<close> counts code points).
  \<^verbatim>\<open>datetime.utcnow()\<close> is a parameter \<open>now\<close> of every operation that reads the
  clock: the seconds since 0001-01-01 00:00:00, the smallest \<^verbatim>\<open>datetime\<close>; the
  largest, 9999-12-31 23:59:59, is \<open>datetime_max\<close>. A \<^verbatim>\<open>timedelta\<close> holds at
  most 999999999 days, and both the construction of a larger one and a difference
  outside the range of \<^verbatim>\<open>datetime\<close> raise \<^verbatim>\<open>OverflowError\<close>.
\<close>

datatype objectid = Oid string

type_synonym datetime = int

definition datetime_max :: datetime where
  "datetime_max = 3652059 * 86400 - 1"

definition timedelta_max_days :: int where
  "timedelta_max_days = 999999999"

definition is_hex :: "char \<Rightarrow> bool" where
  "is_hex c = (c \<in> set ''0123456789abcdefABCDEF'')"

definition hex_lower :: "char \<Rightarrow> char" where
  "hex_lower c =
     (if c = CHR ''A'' then CHR ''a'' else if c = CHR ''B'' then CHR ''b''
      else if c = CHR ''C'' then CHR ''c'' else if c = CHR ''D'' then CHR ''d''
      else if c = CHR ''E'' then CHR ''e'' else if c = CHR ''F'' then CHR ''f''
      else c)"

definition is_space :: "char \<Rightarrow> bool" where
  "is_space c = (c \<in> set [CHR '' '', CHR 0x09, CHR 0x0A, CHR 0x0B, CHR 0x0C, CHR 0x0D])"

text \<open>The digits that \<^verbatim>\<open>bytes.fromhex\<close> reads, \<open>None\<close> when it raises.\<close>

fun fromhex :: "string \<Rightarrow> string option" where
  "fromhex [] = Some []"
| "fromhex [c] = (if is_space c then Some [] else None)"
| "fromhex (c # c' # cs) =
     (if is_space c then fromhex (c' # cs)
      else if is_hex c \<and> is_hex c' then map_option (\<lambda>ds. c # c' # ds) (fromhex cs)
      else None)"

definition ObjectId :: "string \<Rightarrow> objectid option" where
  "ObjectId s =
     (if length s = 24 then map_option (\<lambda>ds. Oid (map hex_lower ds)) (fromhex s) else None)"

fun str_oid :: "objectid \<Rightarrow> string" where
  "str_oid (Oid h) = h"

section \<open>Collections of the document store\<close>

text \<open>
  A collection is the list of its documents in insertion order. \<^verbatim>\<open>find_one\<close> is
  \<^const>\<open>find\<close> (the first match), \<^verbatim>\<open>update_one\<close> changes the first match,
  \<^verbatim>\<open>update_many\<close> every match, \<^verbatim>\<open>delete_many\<close> removes every match, and
  \<^verbatim>\<open>insert_one\<close> appends unless the \<^verbatim>\<open>_id\<close> is already present (the unique
  index every collection has on \<^verbatim>\<open>_id\<close>: the driver raises DuplicateKeyError,
  here \<open>None\<close>). \<^verbatim>\<open>modified_count\<close> counts the matched documents the update
  really changed.
\<close>

fun update_one :: "('a \<Rightarrow> bool) \<Rightarrow> ('a \<Rightarrow> 'a) \<Rightarrow> 'a list \<Rightarrow> 'a list" where
  "update_one P f [] = []"
| "update_one P f (x # xs) = (if P x then f x # xs else x # update_one P f xs)"

definition modified_count_one :: "('a \<Rightarrow> bool) \<Rightarrow> ('a \<Rightarrow> 'a) \<Rightarrow> 'a list \<Rightarrow> nat" where
  "modified_count_one P f xs =
     (case find P xs of None \<Rightarrow> 0 | Some x \<Rightarrow> if f x = x then 0 else 1)"

definition update_many :: "('a \<Rightarrow> bool) \<Rightarrow> ('a \<Rightarrow> 'a) \<Rightarrow> 'a list \<Rightarrow> 'a list" where
  "update_many P f xs = map (\<lambda>x. if P x then f x else x) xs"

definition modified_count_many :: "('a \<Rightarrow> bool) \<Rightarrow> ('a \<Rightarrow> 'a) \<Rightarrow> 'a list \<Rightarrow> nat" where
  "modified_count_many P f xs = length (filter (\<lambda>x. P x \<and> f x \<noteq> x) xs)"

definition delete_many :: "('a \<Rightarrow> bool) \<Rightarrow> 'a list \<Rightarrow> 'a list" where
  "delete_many P xs = filter (\<lambda>x. \<not> P x) xs"

definition insert_one :: "('a \<Rightarrow> objectid) \<Rightarrow> 'a \<Rightarrow> 'a list \<Rightarrow> 'a list option" where
  "insert_one key x xs = (if key x \<in> set (map key xs) then None else Some (xs @ [x]))"

section \<open>Documents\<close>

text \<open>
  A key that a document may lack is an option field (\<open>None\<close>: the key is absent).
  A value that may be Python's \<^verbatim>\<open>None\<close> is an option as well: the display name of
  a profile, which \<^verbatim>\<open>create_user_profile\<close> always writes and which is
  \<^verbatim>\<open>None\<close> when the form had no such field, is \<open>Some None\<close> then,
  \<open>Some (Some n)\<close> for the string \<open>n\<close>, and \<open>None\<close> only in a document without
  the key.
  The \<^verbatim>\<open>data\<close> sub-document of a notification holds the keys the code writes:
  those of a consolidated message notification and those of the other kinds.
\<close>

record profile =
  p_id :: objectid
  p_username :: string
  p_display_name :: "string option option"
  p_is_online :: bool
  p_last_seen :: "datetime option"
  p_status :: "string option"

record chat =
  c_id :: objectid
  c_participants :: "objectid list"
  c_name :: "string option"
  c_is_group :: "bool option"
  c_last_activity :: "datetime option"

record message =
  m_id :: objectid
  m_chat_id :: objectid
  m_sender_id :: objectid
  m_content :: string
  m_message_type :: string
  m_timestamp :: datetime
  m_is_edited :: bool
  m_is_deleted :: bool
  m_read_by :: "objectid list"

record notif_data =
  d_message_id :: "string option"
  d_chat_id :: "string option"
  d_sender_id :: "string option"
  d_sender_name :: "string option option"
  d_content :: "string option"
  d_chat_name :: "string option"
  d_message_count :: "int option"
  d_latest_content :: "string option"
  d_latest_timestamp :: "datetime option"
  d_reader_id :: "string option"

record notification =
  n_id :: objectid
  n_user_id :: objectid
  n_type :: string
  n_message :: string
  n_data :: notif_data
  n_is_read :: bool
  n_created_at :: datetime
  n_updated_at :: "datetime option"
  n_read_at :: "datetime option"

record db =
  user_profiles :: "profile list"
  chats :: "chat list"
  messages :: "message list"
  notifications :: "notification list"

text \<open>
  The wire representation \<^verbatim>\<open>message_data\<close> that the three callers of the
  consolidator build: every key but \<^verbatim>\<open>chat_name\<close> is always present, so the
  defaults of \<^verbatim>\<open>message_data.get('message_id', ...)\<close> and
  \<^verbatim>\<open>message_data.get('timestamp', ...)\<close> are never taken.
\<close>

record message_data =
  md_message_id :: string
  md_chat_id :: string
  md_sender_id :: string
  md_sender_username :: "string option"
  md_content :: string
  md_type :: string
  md_timestamp :: datetime
  md_chat_name :: "string option"

definition empty_data :: notif_data where
  "empty_data =
     \<lparr>d_message_id = None, d_chat_id = None, d_sender_id = None, d_sender_name = None,
      d_content = None, d_chat_name = None, d_message_count = None,
      d_latest_content = None, d_latest_timestamp = None, d_reader_id = None\<rparr>"

section \<open>Profiles and presence (utils/database.py)\<close>

definition get_user_profile :: "db \<Rightarrow> string \<Rightarrow> profile option" where
  "get_user_profile d profile_id =
     (if profile_id = [] then None
      else case ObjectId profile_id of
        None \<Rightarrow> None
      | Some pid \<Rightarrow>
          (case find (\<lambda>p. p_id p = pid) (user_profiles d) of
             None \<Rightarrow> None
           | Some p \<Rightarrow>
               Some (case p_status p of
                       None \<Rightarrow> p\<lparr>p_status := Some ''offline''\<rparr>
                     | Some st \<Rightarrow>
                         if p_is_online p \<and> st = ''offline''
                         then p\<lparr>p_status := Some ''online''\<rparr> else p)))"

text \<open>
  \<^verbatim>\<open>profile.get('display_name', profile['username']) if profile else 'Unknown'\<close>,
  the expression every caller uses for the name of a sender: the value stored under
  \<^verbatim>\<open>display_name\<close> when the key is there (also when that value is
  \<^verbatim>\<open>None\<close>), the user name only when the key is missing.
\<close>

definition display_name_of :: "profile option \<Rightarrow> string option" where
  "display_name_of sender_profile =
     (case sender_profile of
        None \<Rightarrow> Some ''Unknown''
      | Some p \<Rightarrow> (case p_display_name p of Some v \<Rightarrow> v | None \<Rightarrow> Some (p_username p)))"

text \<open>How an f-string prints a value that is a string or \<^verbatim>\<open>None\<close>.\<close>

definition py_str :: "string option \<Rightarrow> string" where
  "py_str v = (case v of None \<Rightarrow> ''None'' | Some s \<Rightarrow> s)"

definition update_user_status :: "datetime \<Rightarrow> db \<Rightarrow> string \<Rightarrow> string \<Rightarrow> bool \<times> db" where
  "update_user_status now d profile_id status =
     (case ObjectId profile_id of
        None \<Rightarrow> (False, d)
      | Some pid \<Rightarrow>
          (let P = (\<lambda>p. p_id p = pid);
               f = (\<lambda>p. p\<lparr>p_is_online := (status = ''online''),
                           p_last_seen := Some now, p_status := Some status\<rparr>)
           in (0 < modified_count_one P f (user_profiles d),
               d\<lparr>user_profiles := update_one P f (user_profiles d)\<rparr>)))"


section \<open>The notification consolidator (utils/database.py)\<close>

text \<open>
  The query of \<^verbatim>\<open>create_consolidated_message_notification\<close>: the recipient's
  object id, the type \<^verbatim>\<open>new_message\<close>, unread, and the sender's id as the string
  stored under \<^verbatim>\<open>data.sender_id\<close>.
\<close>

definition consolidated_query :: "objectid \<Rightarrow> string \<Rightarrow> notification \<Rightarrow> bool" where
  "consolidated_query rid sender_id n =
     (n_user_id n = rid \<and> n_type n = ''new_message'' \<and> n_is_read n = False
      \<and> d_sender_id (n_data n) = Some sender_id)"

definition message_preview :: "string \<Rightarrow> string" where
  "message_preview content =
     (if 50 < length content then take 47 content @ ''...'' else content)"

definition notification_message :: "db \<Rightarrow> message_data \<Rightarrow> string" where
  "notification_message d md =
     py_str (display_name_of (get_user_profile d (md_sender_id md))) @ '': ''
       @ message_preview (md_content md)"

text \<open>The first statement of the function: the \<^verbatim>\<open>find_one\<close> for an unread row.\<close>

definition find_existing_notification :: "db \<Rightarrow> message_data \<Rightarrow> objectid \<Rightarrow> notification option" where
  "find_existing_notification d md rid =
     find (consolidated_query rid (md_sender_id md)) (notifications d)"

text \<open>
  The rest of the function, given what the \<^verbatim>\<open>find_one\<close> returned: an
  \<^verbatim>\<open>update_one\<close> by \<^verbatim>\<open>_id\<close> of the row found, or an \<^verbatim>\<open>insert_one\<close> of a new
  row. The dictionary returned after an update is the row as it was read, with the
  summary, the count and the latest content replaced.
\<close>

definition write_consolidated_notification ::
  "datetime \<Rightarrow> objectid \<Rightarrow> db \<Rightarrow> message_data \<Rightarrow> objectid \<Rightarrow> notification option
     \<Rightarrow> notification option \<times> db" where
  "write_consolidated_notification now new_id d md rid existing_notification =
     (let sender_name = display_name_of (get_user_profile d (md_sender_id md));
          summary = py_str sender_name @ '': '' @ message_preview (md_content md)
      in case existing_notification of
           Some ex \<Rightarrow>
             (let message_count =
                    (case d_message_count (n_data ex) of None \<Rightarrow> 1 | Some c \<Rightarrow> c) + 1
              in (Some (ex\<lparr>n_message := summary,
                           n_data := (n_data ex)\<lparr>d_message_count := Some message_count,
                                                 d_latest_content := Some (md_content md)\<rparr>\<rparr>),
                  d\<lparr>notifications :=
                      update_one (\<lambda>n. n_id n = n_id ex)
                        (\<lambda>n. n\<lparr>n_message := summary,
                                n_data := (n_data n)\<lparr>d_message_count := Some message_count,
                                                     d_latest_content := Some (md_content md),
                                                     d_latest_timestamp := Some (md_timestamp md)\<rparr>,
                                n_updated_at := Some now\<rparr>)
                        (notifications d)\<rparr>))
         | None \<Rightarrow>
             (let notification =
                    \<lparr>n_id = new_id, n_user_id = rid, n_type = ''new_message'',
                     n_message = summary,
                     n_data = \<lparr>d_message_id = Some (md_message_id md),
                               d_chat_id = Some (md_chat_id md),
                               d_sender_id = Some (md_sender_id md),
                               d_sender_name = Some sender_name,
                               d_content = Some (md_content md),
                               d_chat_name =
                                 Some (case md_chat_name md of None \<Rightarrow> ''Chat'' | Some c \<Rightarrow> c),
                               d_message_count = Some 1,
                               d_latest_content = Some (md_content md),
                               d_latest_timestamp = Some (md_timestamp md),
                               d_reader_id = None\<rparr>,
                     n_is_read = False, n_created_at = now, n_updated_at = Some now,
                     n_read_at = None\<rparr>
              in case insert_one n_id notification (notifications d) of
                   None \<Rightarrow> (None, d)
                 | Some ns \<Rightarrow> (Some notification, d\<lparr>notifications := ns\<rparr>)))"

definition create_consolidated_message_notification ::
  "datetime \<Rightarrow> objectid \<Rightarrow> db \<Rightarrow> message_data \<Rightarrow> string \<Rightarrow> notification option \<times> db" where
  "create_consolidated_message_notification now new_id d md receiver_id =
     (case ObjectId receiver_id of
        None \<Rightarrow> (None, d)
      | Some rid \<Rightarrow>
          write_consolidated_notification now new_id d md rid
            (find_existing_notification d md rid))"

text \<open>
  \<^verbatim>\<open>_create_notification\<close> (an Isabelle name cannot start with an underscore). Its
  callers pass the types \<^verbatim>\<open>friend_request\<close>, \<^verbatim>\<open>friend_request_accepted\<close>,
  \<^verbatim>\<open>message_read\<close>, \<^verbatim>\<open>added_to_group\<close>, \<^verbatim>\<open>removed_from_group\<close>,
  \<^verbatim>\<open>user_left_group\<close> and \<^verbatim>\<open>group_name_updated\<close>.
\<close>

definition create_notification ::
  "datetime \<Rightarrow> objectid \<Rightarrow> db \<Rightarrow> string \<Rightarrow> string \<Rightarrow> string \<Rightarrow> notif_data
     \<Rightarrow> notification option \<times> db" where
  "create_notification now new_id d user_id notification_type msg data =
     (case ObjectId user_id of
        None \<Rightarrow> (None, d)
      | Some uid \<Rightarrow>
          (let notification =
                 \<lparr>n_id = new_id, n_user_id = uid, n_type = notification_type,
                  n_message = msg, n_data = data, n_is_read = False, n_created_at = now,
                  n_updated_at = None, n_read_at = None\<rparr>
           in case insert_one n_id notification (notifications d) of
                None \<Rightarrow> (None, d)
              | Some ns \<Rightarrow> (Some notification, d\<lparr>notifications := ns\<rparr>)))"

definition mark_notification_as_read :: "db \<Rightarrow> string \<Rightarrow> string \<Rightarrow> bool \<times> db" where
  "mark_notification_as_read d notification_id user_id =
     (case ObjectId notification_id of
        None \<Rightarrow> (False, d)
      | Some nid \<Rightarrow>
          (case ObjectId user_id of
             None \<Rightarrow> (False, d)
           | Some uid \<Rightarrow>
               (let P = (\<lambda>n. n_id n = nid \<and> n_user_id n = uid);
                    f = (\<lambda>n. n\<lparr>n_is_read := True\<rparr>)
                in (0 < modified_count_one P f (notifications d),
                    d\<lparr>notifications := update_one P f (notifications d)\<rparr>))))"

text \<open>The result is \<^verbatim>\<open>marked_count\<close>, or \<open>None\<close> for \<^verbatim>\<open>{'success': False}\<close>.\<close>

definition mark_all_notifications_as_read :: "db \<Rightarrow> string \<Rightarrow> nat option \<times> db" where
  "mark_all_notifications_as_read d user_id =
     (case ObjectId user_id of
        None \<Rightarrow> (None, d)
      | Some uid \<Rightarrow>
          (let P = (\<lambda>n. n_user_id n = uid \<and> n_is_read n = False);
               f = (\<lambda>n. n\<lparr>n_is_read := True\<rparr>)
           in (Some (modified_count_many P f (notifications d)),
               d\<lparr>notifications := update_many P f (notifications d)\<rparr>)))"

text \<open>
  \<^verbatim>\<open>sender_id=None\<close> is \<open>None\<close>; \<^verbatim>\<open>if sender_id:\<close> is also false for the
  empty string.
\<close>

definition mark_all_message_notifications_as_read ::
  "datetime \<Rightarrow> db \<Rightarrow> string \<Rightarrow> string option \<Rightarrow> nat \<times> db" where
  "mark_all_message_notifications_as_read now d user_id sender_id =
     (case ObjectId user_id of
        None \<Rightarrow> (0, d)
      | Some uid \<Rightarrow>
          (let P = (\<lambda>n. n_user_id n = uid \<and> n_type n = ''new_message'' \<and> n_is_read n = False
                        \<and> (case sender_id of
                              None \<Rightarrow> True
                            | Some s \<Rightarrow> if s = [] then True else d_sender_id (n_data n) = Some s));
               f = (\<lambda>n. n\<lparr>n_is_read := True, n_read_at := Some now\<rparr>)
           in (modified_count_many P f (notifications d),
               d\<lparr>notifications := update_many P f (notifications d)\<rparr>)))"

definition get_unread_notifications_count :: "db \<Rightarrow> string \<Rightarrow> int" where
  "get_unread_notifications_count d user_id =
     (case ObjectId user_id of
        None \<Rightarrow> 0
      | Some uid \<Rightarrow>
          int (length (filter (\<lambda>n. n_user_id n = uid \<and> n_is_read n = False) (notifications d))))"

definition cleanup_old_notifications :: "datetime \<Rightarrow> db \<Rightarrow> int \<Rightarrow> nat \<times> db" where
  "cleanup_old_notifications now d days_old =
     (if days_old < - timedelta_max_days \<or> timedelta_max_days < days_old then (0, d)
      else let cutoff_date = now - days_old * 86400
           in if cutoff_date < 0 \<or> datetime_max < cutoff_date then (0, d)
              else let P = (\<lambda>n. n_created_at n < cutoff_date \<and> n_is_read n = True)
                   in (length (filter P (notifications d)),
                       d\<lparr>notifications := delete_many P (notifications d)\<rparr>))"

definition cleanup_read_notifications :: "db \<Rightarrow> string \<Rightarrow> nat \<times> db" where
  "cleanup_read_notifications d user_id =
     (case ObjectId user_id of
        None \<Rightarrow> (0, d)
      | Some uid \<Rightarrow>
          (let P = (\<lambda>n. n_user_id n = uid \<and> n_is_read n = True)
           in (length (filter P (notifications d)),
               d\<lparr>notifications := delete_many P (notifications d)\<rparr>)))"

section \<open>Messages and chats (utils/database.py)\<close>

text \<open>
  \<^verbatim>\<open>create_message\<close> as the socket handlers call it, without file metadata. It
  catches every exception and returns \<^verbatim>\<open>None\<close>; it does not look the chat up.
\<close>

definition create_message ::
  "datetime \<Rightarrow> objectid \<Rightarrow> db \<Rightarrow> string \<Rightarrow> string \<Rightarrow> string \<Rightarrow> string \<Rightarrow> message option \<times> db" where
  "create_message now new_id d chat_id sender_id content message_type =
     (case ObjectId chat_id of
        None \<Rightarrow> (None, d)
      | Some cid \<Rightarrow>
          (case ObjectId sender_id of
             None \<Rightarrow> (None, d)
           | Some uid \<Rightarrow>
               (let message_data =
                      \<lparr>m_id = new_id, m_chat_id = cid, m_sender_id = uid, m_content = content,
                       m_message_type = message_type, m_timestamp = now, m_is_edited = False,
                       m_is_deleted = False, m_read_by = []\<rparr>
                in case insert_one m_id message_data (messages d) of
                     None \<Rightarrow> (None, d)
                   | Some ms \<Rightarrow>
                       (Some message_data,
                        d\<lparr>messages := ms,
                          chats := update_one (\<lambda>c. c_id c = cid)
                                     (\<lambda>c. c\<lparr>c_last_activity := Some now\<rparr>) (chats d)\<rparr>))))"

text \<open>The chat as \<^verbatim>\<open>get_chat\<close> returns it: ids as strings.\<close>

record chat_info =
  ci_id :: string
  ci_participants :: "string list"
  ci_name :: "string option option"

definition get_chat :: "db \<Rightarrow> string \<Rightarrow> string \<Rightarrow> chat_info option" where
  "get_chat d chat_id user_id =
     (case ObjectId chat_id of
        None \<Rightarrow> None
      | Some cid \<Rightarrow>
          (case ObjectId user_id of
             None \<Rightarrow> None
           | Some uid \<Rightarrow>
               (case find (\<lambda>c. c_id c = cid \<and> uid \<in> set (c_participants c)) (chats d) of
                  None \<Rightarrow> None
                | Some c \<Rightarrow>
                    (let participants = map str_oid (c_participants c);
                         info = \<lparr>ci_id = str_oid (c_id c), ci_participants = participants,
                                 ci_name = map_option Some (c_name c)\<rparr>
                     in if c_is_group c \<noteq> Some True \<and> length participants = 2
                        then (case find (\<lambda>p. p \<noteq> user_id) participants of
                                None \<Rightarrow> Some info
                              | Some other \<Rightarrow>
                                  if other = [] then Some info
                                  else (case ObjectId other of
                                          None \<Rightarrow> None
                                        | Some oid \<Rightarrow>
                                            (case find (\<lambda>p. p_id p = oid) (user_profiles d) of
                                               None \<Rightarrow> Some info
                                             | Some u \<Rightarrow>
                                                 Some (info\<lparr>ci_name :=
                                                   Some (display_name_of (Some u))\<rparr>))))
                        else Some info))))"

text \<open>\<^verbatim>\<open>$addToSet\<close> of the reader into \<^verbatim>\<open>read_by\<close>.\<close>

definition add_to_read_by :: "objectid \<Rightarrow> message \<Rightarrow> message" where
  "add_to_read_by uid m =
     (if uid \<in> set (m_read_by m) then m else m\<lparr>m_read_by := m_read_by m @ [uid]\<rparr>)"

definition mark_message_as_read ::
  "datetime \<Rightarrow> objectid \<Rightarrow> db \<Rightarrow> string \<Rightarrow> string \<Rightarrow> bool \<times> db" where
  "mark_message_as_read now new_id d message_id user_id =
     (case ObjectId message_id of
        None \<Rightarrow> (False, d)
      | Some mid \<Rightarrow>
          (case ObjectId user_id of
             None \<Rightarrow> (False, d)
           | Some uid \<Rightarrow>
               (let modified = modified_count_one (\<lambda>m. m_id m = mid) (add_to_read_by uid) (messages d);
                    d1 = d\<lparr>messages := update_one (\<lambda>m. m_id m = mid) (add_to_read_by uid) (messages d)\<rparr>
                in if 0 < modified
                   then (case find (\<lambda>m. m_id m = mid) (messages d1) of
                           None \<Rightarrow> (True, d1)
                         | Some message \<Rightarrow>
                             (let sender_id = str_oid (m_sender_id message)
                              in if sender_id \<noteq> user_id
                                 then (True,
                                       snd (create_notification now new_id d1 sender_id
                                              ''message_read'' ''Your message was read''
                                              (empty_data\<lparr>d_message_id := Some message_id,
                                                          d_reader_id := Some user_id,
                                                          d_chat_id := Some (str_oid (m_chat_id message))\<rparr>)))
                                 else (True, d1)))
                   else (False, d1))))"

section \<open>The socket layer (Flask-SocketIO)\<close>

text \<open>
  What the handlers use of Flask-SocketIO, after its documentation. A connection is
  named by its session id \<^verbatim>\<open>request.sid\<close>. A room is a name with a set of member
  connections; on connect the library puts every connection into the room named by its
  own session id, and on disconnect it removes the connection from every room.
  \<^verbatim>\<open>emit(event, data, room=r)\<close> delivers one copy to each member of \<open>r\<close>, and with
  \<^verbatim>\<open>include_self=False\<close> to each member but the connection that is handling the
  event; \<^verbatim>\<open>emit(event, data, broadcast=True)\<close> delivers to every connection;
  \<^verbatim>\<open>emit(event, data)\<close> alone answers to the room \<^verbatim>\<open>request.sid\<close>. An emitted
  event is recorded with the set of connections it is delivered to.

  The library encodes a payload with the standard \<^verbatim>\<open>json\<close> module (the
  \<^verbatim>\<open>SocketIO\<close> object of app.py is built without \<^verbatim>\<open>json=\<close>), which raises
  \<^verbatim>\<open>TypeError\<close> on an \<^verbatim>\<open>ObjectId\<close> or a \<^verbatim>\<open>datetime\<close>. Current releases
  of python-socketio encode the packet once, before they look the recipients up; older
  releases encode it for each recipient, so that an emit to a room without members
  encodes nothing. The repository pins no release: which of the two the server runs is
  the field \<open>encodes_first\<close>.
\<close>

type_synonym sid = string

datatype payload =
    UserId string
  | MessageData message_data
  | NotificationUpdated "notification option"
  | BadgeUpdated int
  | ReadReceipt string string string datetime
  | ErrorMessage string

record emitted =
  e_event :: string
  e_payload :: payload
  e_targets :: "sid fset"

record server =
  connected_clients :: "sid \<Rightarrow> string option"
  rooms :: "string \<Rightarrow> sid fset"
  sockets :: "sid fset"
  database :: db
  encodes_first :: bool

definition emit_room :: "server \<Rightarrow> sid \<Rightarrow> string \<Rightarrow> payload \<Rightarrow> string \<Rightarrow> bool \<Rightarrow> emitted" where
  "emit_room srv request_sid event data room include_self =
     \<lparr>e_event = event, e_payload = data,
      e_targets = (if include_self then rooms srv room else rooms srv room |-| {|request_sid|})\<rparr>"

text \<open>
  The payloads that \<^verbatim>\<open>json\<close> can encode. The dictionary that the consolidator
  returns holds the recipient as an \<^verbatim>\<open>ObjectId\<close> under \<^verbatim>\<open>user_id\<close> and
  \<^verbatim>\<open>datetime\<close> values under \<^verbatim>\<open>created_at\<close> and \<^verbatim>\<open>updated_at\<close>, after an
  insert as after an update; every other payload is made of strings, numbers and
  \<^verbatim>\<open>None\<close>.
\<close>

definition encodable :: "payload \<Rightarrow> bool" where
  "encodable data =
     (case data of
        NotificationUpdated notification \<Rightarrow> notification = None
      | _ \<Rightarrow> True)"

text \<open>Whether the emit of an event raises \<^verbatim>\<open>TypeError\<close> on this server.\<close>

definition emit_raises :: "server \<Rightarrow> emitted \<Rightarrow> bool" where
  "emit_raises srv e =
     (if encodable (e_payload e) then False
      else if encodes_first srv then True
      else e_targets e \<noteq> {||})"

definition emit_broadcast :: "server \<Rightarrow> string \<Rightarrow> payload \<Rightarrow> emitted" where
  "emit_broadcast srv event data = \<lparr>e_event = event, e_payload = data, e_targets = sockets srv\<rparr>"

definition join_room :: "sid \<Rightarrow> string \<Rightarrow> server \<Rightarrow> server" where
  "join_room request_sid room srv =
     srv\<lparr>rooms := (rooms srv)(room := finsert request_sid (rooms srv room))\<rparr>"

definition leave_room :: "sid \<Rightarrow> string \<Rightarrow> server \<Rightarrow> server" where
  "leave_room request_sid room srv =
     srv\<lparr>rooms := (rooms srv)(room := rooms srv room |-| {|request_sid|})\<rparr>"

definition socket_connect :: "sid \<Rightarrow> server \<Rightarrow> server" where
  "socket_connect request_sid srv =
     srv\<lparr>sockets := finsert request_sid (sockets srv),
         rooms := (rooms srv)(request_sid := finsert request_sid (rooms srv request_sid))\<rparr>"

definition socket_disconnect :: "sid \<Rightarrow> server \<Rightarrow> server" where
  "socket_disconnect request_sid srv =
     srv\<lparr>sockets := sockets srv |-| {|request_sid|},
         rooms := (\<lambda>room. rooms srv room |-| {|request_sid|})\<rparr>"

text \<open>
  The copies of an event that a connection receives from a list of emitted events, and
  the copies delivered in all.
\<close>

definition deliveries :: "string \<Rightarrow> sid \<Rightarrow> emitted list \<Rightarrow> nat" where
  "deliveries event c out = length (filter (\<lambda>e. e_event e = event \<and> c |\<in>| e_targets e) out)"

definition total_deliveries :: "string \<Rightarrow> emitted list \<Rightarrow> nat" where
  "total_deliveries event out =
     sum_list (map (\<lambda>e. fcard (e_targets e)) (filter (\<lambda>e. e_event e = event) out))"

section \<open>The socket event handlers (app.py)\<close>

text \<open>
  A handler takes the clock, the connection \<^verbatim>\<open>request.sid\<close>, the user id in the
  session (\<open>None\<close>: \<^verbatim>\<open>'user_profile_id' not in session\<close>), the fields of the
  event's data (a missing key and the empty string are both falsy and behave alike) and
  the server; it returns the server and the events emitted, in order. The persistence
  functions catch every exception themselves, so that inside the \<^verbatim>\<open>try\<close> blocks
  of the \<^verbatim>\<open>send_message\<close> handlers only an emit can raise, on a payload that
  cannot be encoded: the handler then leaves the loop, keeps what it has stored so far
  and emits \<^verbatim>\<open>message_error\<close> in its \<^verbatim>\<open>except\<close> branch. The payloads of
  the other handlers below are strings and always encode.
\<close>

definition handle_connect :: "datetime \<Rightarrow> sid \<Rightarrow> string option \<Rightarrow> server \<Rightarrow> server \<times> emitted list" where
  "handle_connect now client_id session srv =
     (case session of
        None \<Rightarrow> (srv, [])
      | Some user_profile_id \<Rightarrow>
          (srv\<lparr>connected_clients := (connected_clients srv)(client_id := Some user_profile_id),
               database := snd (update_user_status now (database srv) user_profile_id ''online'')\<rparr>,
           [emit_broadcast srv ''user_online'' (UserId user_profile_id)]))"


definition handle_join_chat :: "sid \<Rightarrow> string option \<Rightarrow> string \<Rightarrow> server \<Rightarrow> server" where
  "handle_join_chat request_sid session chat_id srv =
     (if chat_id \<noteq> [] \<and> session \<noteq> None then join_room request_sid chat_id srv else srv)"

definition handle_leave_chat :: "sid \<Rightarrow> string option \<Rightarrow> string \<Rightarrow> server \<Rightarrow> server" where
  "handle_leave_chat request_sid session chat_id srv =
     (if chat_id \<noteq> [] \<and> session \<noteq> None then leave_room request_sid chat_id srv else srv)"

text \<open>
  The loop over \<^verbatim>\<open>chat['participants']\<close> of the \<^verbatim>\<open>send_message\<close> handler
  defined last in app.py (the one Flask-SocketIO keeps registered). The driver's fresh
  object ids are a supply \<open>ids\<close>: the message takes \<open>ids 0\<close>, the notification of
  the participant at position \<open>i\<close> takes \<open>ids (Suc i)\<close>.
  The third result says whether an emit raised \<^verbatim>\<open>TypeError\<close>: the loop ends
  there, with what it has stored and emitted so far.
\<close>

fun notify_participants ::
  "datetime \<Rightarrow> (nat \<Rightarrow> objectid) \<Rightarrow> nat \<Rightarrow> server \<Rightarrow> sid \<Rightarrow> message_data \<Rightarrow> string \<Rightarrow> string list
     \<Rightarrow> db \<Rightarrow> db \<times> emitted list \<times> bool" where
  "notify_participants now ids i srv request_sid md user_profile_id [] d = (d, [], False)"
| "notify_participants now ids i srv request_sid md user_profile_id (participant_id # ps) d =
     (if participant_id \<noteq> user_profile_id
      then (let r = create_consolidated_message_notification now (ids i) d md participant_id;
                e = emit_room srv request_sid ''notification_updated''
                      (NotificationUpdated (fst r)) participant_id True
            in if emit_raises srv e then (snd r, [], True)
               else (let rest = notify_participants now ids (Suc i) srv request_sid md
                                  user_profile_id ps (snd r)
                     in (fst rest, e # fst (snd rest), snd (snd rest))))
      else notify_participants now ids (Suc i) srv request_sid md user_profile_id ps d)"

text \<open>
  The same loop in the \<^verbatim>\<open>send_message\<close> handler defined first in app.py: it emits
  only when a notification came back, and adds the badge count.
\<close>

fun notify_participants_first ::
  "datetime \<Rightarrow> (nat \<Rightarrow> objectid) \<Rightarrow> nat \<Rightarrow> server \<Rightarrow> sid \<Rightarrow> message_data \<Rightarrow> string \<Rightarrow> string list
     \<Rightarrow> db \<Rightarrow> db \<times> emitted list \<times> bool" where
  "notify_participants_first now ids i srv request_sid md user_profile_id [] d = (d, [], False)"
| "notify_participants_first now ids i srv request_sid md user_profile_id (participant_id # ps) d =
     (if participant_id \<noteq> user_profile_id
      then (let r = create_consolidated_message_notification now (ids i) d md participant_id
            in case fst r of
                 None \<Rightarrow>
                   notify_participants_first now ids (Suc i) srv request_sid md
                     user_profile_id ps (snd r)
               | Some notification \<Rightarrow>
                   (let e = emit_room srv request_sid ''notification_updated''
                              (NotificationUpdated (Some notification)) participant_id True;
                        badge = emit_room srv request_sid ''notification_badge_updated''
                                  (BadgeUpdated (get_unread_notifications_count (snd r)
                                     participant_id))
                                  participant_id True
                    in if emit_raises srv e then (snd r, [], True)
                       else (let rest = notify_participants_first now ids (Suc i) srv
                                          request_sid md user_profile_id ps (snd r)
                             in (fst rest, e # badge # fst (snd rest), snd (snd rest)))))
      else notify_participants_first now ids (Suc i) srv request_sid md user_profile_id ps d)"

text \<open>
  The body shared by the two \<^verbatim>\<open>send_message\<close> handlers, which differ only in the
  loop: \<open>notify\<close> is the loop, and its third result says whether an emit raised.
\<close>

definition send_message_with ::
  "(datetime \<Rightarrow> (nat \<Rightarrow> objectid) \<Rightarrow> nat \<Rightarrow> server \<Rightarrow> sid \<Rightarrow> message_data \<Rightarrow> string \<Rightarrow> string list
      \<Rightarrow> db \<Rightarrow> db \<times> emitted list \<times> bool)
   \<Rightarrow> datetime \<Rightarrow> (nat \<Rightarrow> objectid) \<Rightarrow> sid \<Rightarrow> string option \<Rightarrow> string \<Rightarrow> string \<Rightarrow> string
   \<Rightarrow> server \<Rightarrow> server \<times> emitted list" where
  "send_message_with notify now ids request_sid session chat_id message_content message_type srv =
     (if chat_id = [] \<or> message_content = [] then (srv, [])
      else case session of
        None \<Rightarrow> (srv, [])
      | Some user_profile_id \<Rightarrow>
          (case create_message now (ids 0) (database srv) chat_id user_profile_id
                  message_content message_type of
             (None, d0) \<Rightarrow> (srv\<lparr>database := d0\<rparr>, [])
           | (Some message, d1) \<Rightarrow>
               (let sender_username = display_name_of (get_user_profile d1 user_profile_id);
                    message_data =
                      \<lparr>md_message_id = str_oid (m_id message), md_chat_id = chat_id,
                       md_sender_id = user_profile_id, md_sender_username = sender_username,
                       md_content = message_content, md_type = message_type,
                       md_timestamp = m_timestamp message, md_chat_name = None\<rparr>;
                    notified =
                      (case get_chat d1 chat_id user_profile_id of
                         None \<Rightarrow> (d1, [], False)
                       | Some chat \<Rightarrow>
                           notify now ids 1 srv request_sid message_data user_profile_id
                             (ci_participants chat) d1)
                in if snd (snd notified)
                   then (srv\<lparr>database := fst notified\<rparr>,
                         fst (snd notified)
                         @ [emit_room srv request_sid ''message_error''
                              (ErrorMessage ''Failed to send message'') request_sid True])
                   else (srv\<lparr>database := fst notified\<rparr>,
                         fst (snd notified)
                         @ [emit_room srv request_sid ''new_message'' (MessageData message_data)
                              chat_id False,
                            emit_room srv request_sid ''new_message'' (MessageData message_data)
                              request_sid True]))))"

definition handle_send_message ::
  "datetime \<Rightarrow> (nat \<Rightarrow> objectid) \<Rightarrow> sid \<Rightarrow> string option \<Rightarrow> string \<Rightarrow> string \<Rightarrow> string
   \<Rightarrow> server \<Rightarrow> server \<times> emitted list" where
  "handle_send_message = send_message_with notify_participants"

definition handle_send_message_first ::
  "datetime \<Rightarrow> (nat \<Rightarrow> objectid) \<Rightarrow> sid \<Rightarrow> string option \<Rightarrow> string \<Rightarrow> string \<Rightarrow> string
   \<Rightarrow> server \<Rightarrow> server \<times> emitted list" where
  "handle_send_message_first = send_message_with notify_participants_first"

definition handle_message_read ::
  "datetime \<Rightarrow> objectid \<Rightarrow> sid \<Rightarrow> string option \<Rightarrow> string \<Rightarrow> server \<Rightarrow> server \<times> emitted list" where
  "handle_message_read now new_id request_sid session message_id srv =
     (if message_id = [] then (srv, [])
      else case session of
        None \<Rightarrow> (srv, [])
      | Some user_profile_id \<Rightarrow>
          (let result = mark_message_as_read now new_id (database srv) message_id user_profile_id;
               srv1 = srv\<lparr>database := snd result\<rparr>
           in if fst result
              then (case ObjectId message_id of
                      None \<Rightarrow> (srv1, [])
                    | Some mid \<Rightarrow>
                        (case find (\<lambda>m. m_id m = mid) (messages (snd result)) of
                           None \<Rightarrow> (srv1, [])
                         | Some message \<Rightarrow>
                             (srv1,
                              [emit_room srv request_sid ''message_read_receipt''
                                 (ReadReceipt message_id user_profile_id
                                    (str_oid (m_chat_id message)) now)
                                 (str_oid (m_sender_id message)) True])))
              else (srv1, [])))"

section \<open>Sequences of operations on the store\<close>

text \<open>
  The arguments of one call of \<^verbatim>\<open>create_consolidated_message_notification\<close>: the
  clock, the object id the driver would give a new row, and the message.
\<close>

record call =
  call_now :: datetime
  call_new_id :: objectid
  call_md :: message_data

text \<open>Calls for the same recipient, one after the other.\<close>

fun send_consecutive :: "db \<Rightarrow> call list \<Rightarrow> string \<Rightarrow> db" where
  "send_consecutive d [] receiver_id = d"
| "send_consecutive d (c # cs) receiver_id =
     send_consecutive
       (snd (create_consolidated_message_notification (call_now c) (call_new_id c) d
               (call_md c) receiver_id))
       cs receiver_id"

text \<open>
  The handlers run in threads (\<^verbatim>\<open>async_mode='threading'\<close>), and the consolidator
  talks to the store twice: the \<^verbatim>\<open>find_one\<close>, then the \<^verbatim>\<open>update_one\<close> or
  \<^verbatim>\<open>insert_one\<close>. Two calls for the same recipient are two threads; a schedule is
  the order in which the store serves their requests, and each thread keeps what its
  \<^verbatim>\<open>find_one\<close> returned in its local variable \<^verbatim>\<open>existing_notification\<close>.
\<close>

datatype thread = Thread1 | Thread2

datatype phase = Find thread | Write thread

fun run_phases ::
  "(thread \<Rightarrow> call) \<Rightarrow> objectid \<Rightarrow> phase list \<Rightarrow> (thread \<Rightarrow> notification option) \<Rightarrow> db \<Rightarrow> db" where
  "run_phases calls rid [] existing d = d"
| "run_phases calls rid (Find t # ps) existing d =
     run_phases calls rid ps
       (existing(t := find_existing_notification d (call_md (calls t)) rid)) d"
| "run_phases calls rid (Write t # ps) existing d =
     run_phases calls rid ps existing
       (snd (write_consolidated_notification (call_now (calls t)) (call_new_id (calls t)) d
               (call_md (calls t)) rid (existing t)))"

text \<open>
  The \<^verbatim>\<open>delete_many\<close> by owner that the account clean-ups run on the notifications.
\<close>

definition delete_notifications_of :: "objectid list \<Rightarrow> db \<Rightarrow> db" where
  "delete_notifications_of profile_ids d =
     d\<lparr>notifications := delete_many (\<lambda>n. n_user_id n \<in> set profile_ids) (notifications d)\<rparr>"

text \<open>
  The stores that the operations of the repository reach from a store without
  notifications when the store serves them one after the other, each to its end before
  the next begins. (Two handlers that run at the same time are not of this kind: their
  requests to the store can alternate, as in \<open>run_phases\<close>.)
  \<^verbatim>\<open>_create_notification\<close> is never called with the type \<^verbatim>\<open>new_message\<close>.
\<close>

inductive reachable_in_sequence :: "db \<Rightarrow> bool" where
  start: "notifications d = [] \<Longrightarrow> reachable_in_sequence d"
| consolidated:
    "reachable_in_sequence d \<Longrightarrow>
     reachable_in_sequence (snd (create_consolidated_message_notification now new_id d md receiver_id))"
| other_notification:
    "reachable_in_sequence d \<Longrightarrow> notification_type \<noteq> ''new_message'' \<Longrightarrow>
     reachable_in_sequence (snd (create_notification now new_id d user_id notification_type msg data))"
| message_read:
    "reachable_in_sequence d \<Longrightarrow> reachable_in_sequence (snd (mark_message_as_read now new_id d message_id user_id))"
| mark_one:
    "reachable_in_sequence d \<Longrightarrow> reachable_in_sequence (snd (mark_notification_as_read d notification_id user_id))"
| mark_all:
    "reachable_in_sequence d \<Longrightarrow> reachable_in_sequence (snd (mark_all_notifications_as_read d user_id))"
| mark_all_message:
    "reachable_in_sequence d \<Longrightarrow>
     reachable_in_sequence (snd (mark_all_message_notifications_as_read now d user_id sender_id))"
| cleanup_old:
    "reachable_in_sequence d \<Longrightarrow> reachable_in_sequence (snd (cleanup_old_notifications now d days_old))"
| cleanup_read:
    "reachable_in_sequence d \<Longrightarrow> reachable_in_sequence (snd (cleanup_read_notifications d user_id))"
| delete_of:
    "reachable_in_sequence d \<Longrightarrow> reachable_in_sequence (delete_notifications_of profile_ids d)"
| new_message:
    "reachable_in_sequence d \<Longrightarrow>
     reachable_in_sequence (snd (create_message now new_id d chat_id sender_id content message_type))"
| status:
    "reachable_in_sequence d \<Longrightarrow> reachable_in_sequence (snd (update_user_status now d profile_id st))"

text \<open>
  The invariant of the consolidator: the rows have different ids, and no recipient has
  two unread \<^verbatim>\<open>new_message\<close> rows for the same sender.
\<close>

definition consolidated_invariant :: "db \<Rightarrow> bool" where
  "consolidated_invariant d =
     (distinct (map n_id (notifications d))
      \<and> (\<forall>rid sender_id.
            length (filter (consolidated_query rid sender_id) (notifications d)) \<le> 1))"

text \<open>
  A call of the consolidator on the store \<open>d\<close> starts a new cycle: it returns a new
  row with the id \<open>new_id\<close>, unread, counting one message, and the store afterwards is
  the store before with that row appended (every older row is as it was).
\<close>

definition creates_fresh_row :: "datetime \<Rightarrow> objectid \<Rightarrow> db \<Rightarrow> message_data \<Rightarrow> string \<Rightarrow> bool" where
  "creates_fresh_row now new_id d md receiver_id =
     (case create_consolidated_message_notification now new_id d md receiver_id of
        (None, d') \<Rightarrow> False
      | (Some n, d') \<Rightarrow>
          d' = d\<lparr>notifications := notifications d @ [n]\<rparr> \<and> n_id n = new_id
          \<and> n_is_read n = False \<and> d_message_count (n_data n) = Some 1)"

section \<open>Example data\<close>

definition alice :: string where "alice = ''aaaaaaaaaaaaaaaaaaaaaaa1''"
definition bob :: string where "bob = ''bbbbbbbbbbbbbbbbbbbbbbb2''"
definition lobby :: string where "lobby = ''ccccccccccccccccccccccc3''"

definition example_ids :: "nat \<Rightarrow> objectid" where
  "example_ids n =
     (if n = 0 then Oid ''eeeeeeeeeeeeeeeeeeeeeee0''
      else if n = 1 then Oid ''eeeeeeeeeeeeeeeeeeeeeee1''
      else if n = 2 then Oid ''eeeeeeeeeeeeeeeeeeeeeee2''
      else Oid ''eeeeeeeeeeeeeeeeeeeeeee3'')"

text \<open>
  A profile as \<^verbatim>\<open>create_user_profile\<close> writes it, with the display name of the
  form (\<open>None\<close> when the form had none). Alice gave a display name, bob did not.
\<close>

definition example_profile :: "string \<Rightarrow> string \<Rightarrow> string option \<Rightarrow> profile" where
  "example_profile pid name display_name =
     \<lparr>p_id = Oid pid, p_username = name, p_display_name = Some display_name,
      p_is_online = False, p_last_seen = None, p_status = None\<rparr>"

definition example_db :: db where
  "example_db =
     \<lparr>user_profiles = [example_profile alice ''alice'' (Some ''Alice''),
                       example_profile bob ''bob'' None],
      chats = [\<lparr>c_id = Oid lobby, c_participants = [Oid alice, Oid bob], c_name = None,
                c_is_group = None, c_last_activity = None\<rparr>],
      messages = [], notifications = []\<rparr>"

definition example_md :: "string \<Rightarrow> message_data" where
  "example_md content =
     \<lparr>md_message_id = ''eeeeeeeeeeeeeeeeeeeeeee0'', md_chat_id = lobby, md_sender_id = alice,
      md_sender_username = Some ''Alice'', md_content = content, md_type = ''text'',
      md_timestamp = 5, md_chat_name = None\<rparr>"

text \<open>A message of bob, for alice.\<close>

definition example_md_bob :: "string \<Rightarrow> message_data" where
  "example_md_bob content =
     \<lparr>md_message_id = ''eeeeeeeeeeeeeeeeeeeeeee0'', md_chat_id = lobby, md_sender_id = bob,
      md_sender_username = None, md_content = content, md_type = ''text'',
      md_timestamp = 5, md_chat_name = None\<rparr>"

definition example_call :: "nat \<Rightarrow> string \<Rightarrow> call" where
  "example_call k content =
     \<lparr>call_now = int k, call_new_id = example_ids k, call_md = example_md content\<rparr>"

text \<open>
  The example servers run a library that encodes for each recipient; the same server
  with a library that encodes first is \<open>srv\<lparr>encodes_first := True\<rparr>\<close>.
\<close>

definition empty_server :: server where
  "empty_server =
     \<lparr>connected_clients = (\<lambda>_. None), rooms = (\<lambda>_. {||}), sockets = {||},
      database = example_db, encodes_first = False\<rparr>"

text \<open>A transport connect followed by the \<^verbatim>\<open>connect\<close> handler.\<close>

definition connect_as :: "sid \<Rightarrow> string \<Rightarrow> server \<Rightarrow> server" where
  "connect_as request_sid user srv =
     fst (handle_connect 1 request_sid (Some user) (socket_connect request_sid srv))"

text \<open>The example store after one message of alice to bob.\<close>

definition one_message_db :: db where
  "one_message_db = send_consecutive example_db [example_call 1 ''hi''] bob"

text \<open>The example store after alice has sent one message to the chat.\<close>

definition message_db :: db where
  "message_db = snd (create_message 3 (example_ids 0) example_db lobby alice ''hi'' ''text'')"

text \<open>Two calls for bob, both for messages of alice.\<close>

definition example_calls :: "thread \<Rightarrow> call" where
  "example_calls t =
     (case t of Thread1 \<Rightarrow> example_call 1 ''hi'' | Thread2 \<Rightarrow> example_call 2 ''there'')"

text \<open>
  The example store after these two calls, when the store has served the
  \<^verbatim>\<open>find_one\<close> of both before the write of either.
\<close>

definition raced_db :: db where
  "raced_db =
     run_phases example_calls (Oid bob) [Find Thread1, Find Thread2, Write Thread1, Write Thread2]
       (\<lambda>t. None) example_db"

text \<open>
  Alice on the connection \<open>sidA\<close> and bob on \<open>sidB\<close>, both in the room of the chat.
\<close>

definition chat_server :: server where
  "chat_server =
     handle_join_chat ''sidB'' (Some bob) lobby
       (handle_join_chat ''sidA'' (Some alice) lobby
          (connect_as ''sidB'' bob (connect_as ''sidA'' alice empty_server)))"

text \<open>
  The same, after bob's connection has also sent \<^verbatim>\<open>join_chat\<close> with bob's own user
  id as the name of the room.
\<close>

definition own_room_server :: server where
  "own_room_server = handle_join_chat ''sidB'' (Some bob) bob chat_server"

text \<open>Alice connected twice.\<close>

definition two_tabs_server :: server where
  "two_tabs_server = connect_as ''tab2'' alice (connect_as ''tab1'' alice empty_server)"

text \<open>The server of the chat when the store holds alice's message.\<close>

definition read_server :: server where
  "read_server = chat_server\<lparr>database := message_db\<rparr>"

text \<open>
  Alice sends \<open>hello\<close> to the chat at time 7: the store once the message is in it,
  the message as the handler emits it, and what the consolidator returns for bob.
\<close>

definition hello_db :: db where
  "hello_db =
     snd (create_message 7 (example_ids 0) (database chat_server) lobby alice ''hello'' ''text'')"

definition hello_md :: message_data where
  "hello_md =
     \<lparr>md_message_id = ''eeeeeeeeeeeeeeeeeeeeeee0'', md_chat_id = lobby, md_sender_id = alice,
      md_sender_username = Some ''Alice'', md_content = ''hello'', md_type = ''text'',
      md_timestamp = 7, md_chat_name = None\<rparr>"

definition hello_notified :: "notification option \<times> db" where
  "hello_notified = create_consolidated_message_notification 7 (example_ids 2) hello_db hello_md bob"

section \<open>Lemmas about collections\<close>

lemma ObjectId_alice: "ObjectId alice = Some (Oid alice)"
  by (simp add: ObjectId_def alice_def is_hex_def hex_lower_def is_space_def)
lemma ObjectId_bob: "ObjectId bob = Some (Oid bob)"
  by (simp add: ObjectId_def bob_def is_hex_def hex_lower_def is_space_def)
lemma ObjectId_lobby: "ObjectId lobby = Some (Oid lobby)"
  by (simp add: ObjectId_def lobby_def is_hex_def hex_lower_def is_space_def)

lemma find_update_one_same:
  "(\<And>x. P x \<Longrightarrow> P (f x)) \<Longrightarrow> find P (update_one P f xs) = map_option f (find P xs)"
  by (induction xs) auto

lemma find_hd_filter: "find P xs = (case filter P xs of [] \<Rightarrow> None | x # _ \<Rightarrow> Some x)"
  by (induction xs) auto

lemma map_update_one: "(\<And>x. key (f x) = key x) \<Longrightarrow> map key (update_one P f xs) = map key xs"
  by (induction xs) auto

lemma length_filter_update_one:
  "(\<And>x. Q (f x) \<Longrightarrow> Q x) \<Longrightarrow> length (filter Q (update_one P f xs)) \<le> length (filter Q xs)"
  by (induction xs) (auto simp: le_SucI)

lemma length_filter_update_many:
  "(\<And>x. Q (f x) \<Longrightarrow> Q x) \<Longrightarrow> length (filter Q (update_many P f xs)) \<le> length (filter Q xs)"
  unfolding update_many_def by (induction xs) (auto simp: le_SucI)

lemma length_filter_delete_many:
  "length (filter Q (delete_many P xs)) \<le> length (filter Q xs)"
  unfolding delete_many_def by (induction xs) (auto simp: le_SucI)

lemma filter_singletonD: "filter Q xs = [ex] \<Longrightarrow> ex \<in> set xs \<and> Q ex"
proof -
  assume a: "filter Q xs = [ex]"
  have "ex \<in> set (filter Q xs)" by (simp only: a) simp
  then show ?thesis by simp
qed

lemma filter_update_one_unique:
  assumes "distinct (map key xs)" "filter Q xs = [ex]" "\<And>x. Q (f x) = Q x" "\<And>x. key (f x) = key x"
  shows "filter Q (update_one (\<lambda>n. key n = key ex) f xs) = [f ex]"
  using assms(1,2)
proof (induction xs)
  case Nil then show ?case by simp
next
  case (Cons x xs)
  have exin: "ex \<in> set (x # xs)" and qex: "Q ex"
    using filter_singletonD[OF Cons.prems(2)] by auto
  show ?case
  proof (cases "key x = key ex")
    case True
    have "x = ex"
    proof (rule ccontr)
      assume "x \<noteq> ex"
      then have "ex \<in> set xs" using exin by simp
      then have "key ex \<in> set (map key xs)" by simp
      then show False using Cons.prems(1) True by simp
    qed
    then have "filter Q xs = []" using Cons.prems(2) qex by simp
    then show ?thesis using True \<open>x = ex\<close> qex assms(3) by simp
  next
    case False
    then have "x \<noteq> ex" by auto
    have "\<not> Q x"
    proof
      assume "Q x"
      then have "x = ex" using Cons.prems(2) by simp
      then show False using \<open>x \<noteq> ex\<close> by simp
    qed
    then have "filter Q xs = [ex]" using Cons.prems(2) by simp
    then show ?thesis using False \<open>\<not> Q x\<close> Cons.IH Cons.prems(1) by simp
  qed
qed

lemma message_preview_length: "length (message_preview c) \<le> 50"
  by (simp add: message_preview_def)

lemma insert_one_Some: "insert_one key x xs = Some ys \<Longrightarrow> ys = xs @ [x] \<and> key x \<notin> set (map key xs)"
  by (auto simp: insert_one_def split: if_splits)

lemma find_by_id_append_fresh:
  "key x \<notin> set (map key xs) \<Longrightarrow> find (\<lambda>r. key r = key x) (xs @ [x]) = Some x"
  by (induction xs) auto

lemma find_Some_mem: "find P xs = Some x \<Longrightarrow> x \<in> set xs \<and> P x"
  by (induction xs) (auto split: if_splits)

lemma find_None_filter: "find P xs = None \<longleftrightarrow> filter P xs = []"
  by (induction xs) auto

lemma find_id_of_member: "x \<in> set xs \<Longrightarrow> find (\<lambda>r. key r = key x) xs \<noteq> None"
  by (induction xs) auto

lemmas example_simps =
  alice_def bob_def lobby_def example_ids_def example_profile_def example_db_def
  example_md_def example_md_bob_def example_call_def empty_server_def connect_as_def
  ObjectId_def is_hex_def hex_lower_def is_space_def insert_one_def
  get_user_profile_def display_name_of_def py_str_def message_preview_def

section \<open>The summary line of a consolidated notification\<close>

text \<open>
  C8. Whenever the consolidator returns a notification, created or updated, its summary
  line is the sender's name, a colon and a blank, and the preview; the row of the store
  with that id carries the same line. The sender's name is \<open>Unknown\<close> when the sender
  has no profile, the user name when the profile has no \<^verbatim>\<open>display_name\<close> key, and
  otherwise the value stored under that key, printed as \<open>None\<close> when the value is
  \<^verbatim>\<open>None\<close>. The preview is the content itself when the content has at most 50
  characters, and otherwise the first 47 characters of the content followed by three
  dots, so that the preview never exceeds 50 characters.
\<close>

theorem consolidated_summary_line:
  assumes "create_consolidated_message_notification now new_id d md receiver_id = (Some n, d')"
  shows "n_message n =
           (case get_user_profile d (md_sender_id md) of
              None \<Rightarrow> ''Unknown''
            | Some p \<Rightarrow>
                (case p_display_name p of
                   None \<Rightarrow> p_username p
                 | Some None \<Rightarrow> ''None''
                 | Some (Some name) \<Rightarrow> name))
           @ '': '' @
           (if length (md_content md) \<le> 50 then md_content md
            else take 47 (md_content md) @ ''...'')
         \<and> map_option n_message (find (\<lambda>r. n_id r = n_id n) (notifications d')) = Some (n_message n)
         \<and> length (message_preview (md_content md)) \<le> 50"
proof -
  obtain rid where rid: "ObjectId receiver_id = Some rid"
    using assms by (cases "ObjectId receiver_id") (auto simp: create_consolidated_message_notification_def)
  let ?name = "py_str (display_name_of (get_user_profile d (md_sender_id md)))"
  let ?summary = "?name @ '': '' @ message_preview (md_content md)"
  have name: "?name = (case get_user_profile d (md_sender_id md) of
              None \<Rightarrow> ''Unknown''
            | Some p \<Rightarrow>
                (case p_display_name p of
                   None \<Rightarrow> p_username p
                 | Some None \<Rightarrow> ''None''
                 | Some (Some name) \<Rightarrow> name))"
    by (simp add: py_str_def display_name_of_def split: option.splits)
  have w: "write_consolidated_notification now new_id d md rid (find_existing_notification d md rid) = (Some n, d')"
    using assms rid by (simp add: create_consolidated_message_notification_def)
  have pre: "message_preview (md_content md) = (if length (md_content md) \<le> 50 then md_content md
              else take 47 (md_content md) @ ''...'')"
    by (simp add: message_preview_def)
  have goal: "n_message n = ?summary
         \<and> map_option n_message (find (\<lambda>r. n_id r = n_id n) (notifications d')) = Some (n_message n)"
  proof (cases "find_existing_notification d md rid")
    case None
    from w None obtain ns where ins: "insert_one n_id n (notifications d) = Some ns"
      and d': "d' = d\<lparr>notifications := ns\<rparr>" and nm: "n_message n = ?summary" and nid: "n_id n = new_id"
      by (auto simp: write_consolidated_notification_def Let_def split: option.splits)
    from insert_one_Some[OF ins] have "ns = notifications d @ [n]" "n_id n \<notin> set (map n_id (notifications d))" by auto
    then have "find (\<lambda>r. n_id r = n_id n) (notifications d') = Some n"
      using d' find_by_id_append_fresh[of n_id n "notifications d"] by simp
    then show ?thesis using nm by simp
  next
    case (Some ex)
    let ?f = "(\<lambda>n. n\<lparr>n_message := ?summary,
                                n_data := (n_data n)\<lparr>d_message_count := Some ((case d_message_count (n_data ex) of None \<Rightarrow> 1 | Some c \<Rightarrow> c) + 1),
                                                     d_latest_content := Some (md_content md),
                                                     d_latest_timestamp := Some (md_timestamp md)\<rparr>,
                                n_updated_at := Some now\<rparr>)"
    from w Some have nm: "n_message n = ?summary" and nid: "n_id n = n_id ex"
      and d': "notifications d' = update_one (\<lambda>n. n_id n = n_id ex) ?f (notifications d)"
      by (auto simp: write_consolidated_notification_def Let_def)
    have "ex \<in> set (notifications d)" using Some find_Some_mem unfolding find_existing_notification_def by fastforce
    then obtain r where r: "find (\<lambda>r. n_id r = n_id ex) (notifications d) = Some r"
      using find_id_of_member[of ex "notifications d" n_id] by auto
    have "find (\<lambda>r. n_id r = n_id ex) (notifications d') = map_option ?f (find (\<lambda>r. n_id r = n_id ex) (notifications d))"
      unfolding d' by (rule find_update_one_same) simp
    then show ?thesis using nm nid r by simp
  qed
  have g1: "n_message n =
           (case get_user_profile d (md_sender_id md) of
              None \<Rightarrow> ''Unknown''
            | Some p \<Rightarrow>
                (case p_display_name p of
                   None \<Rightarrow> p_username p
                 | Some None \<Rightarrow> ''None''
                 | Some (Some name) \<Rightarrow> name))
           @ '': '' @
           (if length (md_content md) \<le> 50 then md_content md
            else take 47 (md_content md) @ ''...'')"
    using goal by (simp only: name pre)
  have g2: "map_option n_message (find (\<lambda>r. n_id r = n_id n) (notifications d')) = Some (n_message n)"
    using goal by blast
  have g3: "length (message_preview (md_content md)) \<le> 50" by (rule message_preview_length)
  show ?thesis using g1 g2 g3 by blast
qed

lemmas consolidator_simps =
  create_consolidated_message_notification_def write_consolidated_notification_def
  find_existing_notification_def consolidated_query_def Let_def

theorem consolidated_summary_line_witness:
  "n_message (the (fst (create_consolidated_message_notification 5 (example_ids 1) example_db
      (example_md ''hello'') bob))) = ''Alice: hello''
   \<and> n_message (the (fst (create_consolidated_message_notification 5 (example_ids 1) example_db
      (example_md_bob ''hello'') alice))) = ''None: hello''"
proof -
  let ?a = "create_consolidated_message_notification 5 (example_ids 1) example_db (example_md ''hello'') bob"
  let ?b = "create_consolidated_message_notification 5 (example_ids 1) example_db (example_md_bob ''hello'') alice"
  have ra: "?a = (Some (the (fst ?a)), snd ?a)"
    by (simp add: consolidator_simps example_simps)
  have rb: "?b = (Some (the (fst ?b)), snd ?b)"
    by (simp add: consolidator_simps example_simps)
  have pa: "get_user_profile example_db (md_sender_id (example_md ''hello''))
     = Some ((example_profile alice ''alice'' (Some ''Alice''))\<lparr>p_status := Some ''offline''\<rparr>)"
    by (simp add: example_simps)
  have pb: "get_user_profile example_db (md_sender_id (example_md_bob ''hello''))
     = Some ((example_profile bob ''bob'' None)\<lparr>p_status := Some ''offline''\<rparr>)"
    by (simp add: example_simps)
  have a: "n_message (the (fst ?a)) = ''Alice: hello''"
    using consolidated_summary_line[OF ra] by (simp add: pa) (simp add: example_profile_def example_md_def)
  have b: "n_message (the (fst ?b)) = ''None: hello''"
    using consolidated_summary_line[OF rb] by (simp add: pb) (simp add: example_profile_def example_md_bob_def)
  show ?thesis using a b by simp
qed

theorem preview_keeps_47_characters:
  "map_option n_message (fst (create_consolidated_message_notification 5 (example_ids 1) example_db
      (example_md (replicate 51 (CHR ''a''))) bob))
     = Some (''Alice: '' @ replicate 47 (CHR ''a'') @ ''...'')
   \<and> map_option n_message (fst (create_consolidated_message_notification 5 (example_ids 1) example_db
      (example_md (replicate 51 (CHR ''a''))) bob))
     \<noteq> Some (''Alice: '' @ take 50 (replicate 51 (CHR ''a'')) @ ''...'')"
  by (simp add: consolidator_simps example_simps)

section \<open>One unread row for each recipient and sender\<close>

lemma consolidated_query_update [simp]:
  "consolidated_query r s (n\<lparr>n_message := m, n_data := (n_data n)\<lparr>d_message_count := c,
       d_latest_content := lc, d_latest_timestamp := lt\<rparr>, n_updated_at := u\<rparr>)
   = consolidated_query r s n"
  by (simp add: consolidated_query_def)

lemma create_when_none:
  assumes "ObjectId receiver_id = Some rid"
    and "filter (consolidated_query rid (md_sender_id md)) (notifications d) = []"
    and "new_id \<notin> set (map n_id (notifications d))"
  shows "\<exists>n. create_consolidated_message_notification now new_id d md receiver_id
               = (Some n, d\<lparr>notifications := notifications d @ [n]\<rparr>)
             \<and> n_id n = new_id \<and> d_message_count (n_data n) = Some 1
             \<and> consolidated_query rid (md_sender_id md) n
             \<and> n_message n = notification_message d md"
proof -
  have "find_existing_notification d md rid = None"
    using assms(2) by (simp add: find_existing_notification_def find_None_filter)
  then show ?thesis using assms(1,3)
    by (simp add: create_consolidated_message_notification_def write_consolidated_notification_def
        insert_one_def Let_def consolidated_query_def notification_message_def)
qed

lemma create_when_one:
  assumes "ObjectId receiver_id = Some rid"
    and "distinct (map n_id (notifications d))"
    and "filter (consolidated_query rid (md_sender_id md)) (notifications d) = [ex]"
  shows "\<exists>n. filter (consolidated_query rid (md_sender_id md))
               (notifications (snd (create_consolidated_message_notification now new_id d md receiver_id))) = [n]
             \<and> d_message_count (n_data n)
                 = Some ((case d_message_count (n_data ex) of None \<Rightarrow> 1 | Some c \<Rightarrow> c) + 1)
             \<and> n_message n = notification_message d md
             \<and> map n_id (notifications (snd (create_consolidated_message_notification now new_id d md receiver_id)))
                 = map n_id (notifications d)"
proof -
  have f: "find_existing_notification d md rid = Some ex"
    using assms(3) by (simp add: find_existing_notification_def find_hd_filter)
  let ?f = "\<lambda>n. n\<lparr>n_message := notification_message d md,
              n_data := (n_data n)\<lparr>d_message_count := Some ((case d_message_count (n_data ex) of None \<Rightarrow> 1 | Some c \<Rightarrow> c) + 1),
                                   d_latest_content := Some (md_content md),
                                   d_latest_timestamp := Some (md_timestamp md)\<rparr>,
              n_updated_at := Some now\<rparr>"
  have ns: "notifications (snd (create_consolidated_message_notification now new_id d md receiver_id))
      = update_one (\<lambda>n. n_id n = n_id ex) ?f (notifications d)"
    using f assms(1)
    by (simp add: create_consolidated_message_notification_def write_consolidated_notification_def
        Let_def notification_message_def)
  have u: "filter (consolidated_query rid (md_sender_id md)) (update_one (\<lambda>n. n_id n = n_id ex) ?f (notifications d)) = [?f ex]"
    by (rule filter_update_one_unique[OF assms(2) assms(3)]) simp_all
  have m: "map n_id (update_one (\<lambda>n. n_id n = n_id ex) ?f (notifications d)) = map n_id (notifications d)"
    by (rule map_update_one) simp
  show ?thesis unfolding ns using u m by simp
qed

lemma send_consecutive_from_one:
  assumes "ObjectId receiver_id = Some rid"
  shows "distinct (map n_id (notifications d)) \<Longrightarrow>
         filter (consolidated_query rid s) (notifications d) = [ex] \<Longrightarrow>
         d_message_count (n_data ex) = Some c \<Longrightarrow>
         list_all (\<lambda>k. md_sender_id (call_md k) = s) cs \<Longrightarrow>
         \<exists>n. filter (consolidated_query rid s) (notifications (send_consecutive d cs receiver_id)) = [n]
              \<and> d_message_count (n_data n) = Some (c + int (length cs))"
proof (induction cs arbitrary: d ex c)
  case Nil
  then show ?case by simp
next
  case (Cons k cs)
  let ?d1 = "snd (create_consolidated_message_notification (call_now k) (call_new_id k) d (call_md k) receiver_id)"
  have s: "md_sender_id (call_md k) = s" using Cons.prems(4) by simp
  from create_when_one[OF assms Cons.prems(1), of "call_md k" ex "call_now k" "call_new_id k"] Cons.prems(2,3) s
  obtain n where n: "filter (consolidated_query rid s) (notifications ?d1) = [n]"
    "d_message_count (n_data n) = Some (c + 1)"
    "map n_id (notifications ?d1) = map n_id (notifications d)"
    by auto
  have dist: "distinct (map n_id (notifications ?d1))" using n(3) Cons.prems(1) by simp
  have rest: "list_all (\<lambda>k. md_sender_id (call_md k) = s) cs" using Cons.prems(4) by simp
  from Cons.IH[OF dist n(1) n(2) rest] show ?case by (simp add: add.assoc)
qed

lemma map_update_many: "(\<And>x. key (f x) = key x) \<Longrightarrow> map key (update_many P f xs) = map key xs"
  unfolding update_many_def by (induction xs) auto

lemma invariant_unchanged:
  "notifications d' = notifications d \<Longrightarrow> consolidated_invariant d \<Longrightarrow> consolidated_invariant d'"
  by (simp add: consolidated_invariant_def)

lemma invariant_update_one:
  assumes "consolidated_invariant d" "\<And>x. n_id (f x) = n_id x"
    "\<And>r s x. consolidated_query r s (f x) \<Longrightarrow> consolidated_query r s x"
  shows "consolidated_invariant (d\<lparr>notifications := update_one P f (notifications d)\<rparr>)"
proof -
  have "length (filter (consolidated_query r s) (update_one P f (notifications d))) \<le> 1" for r s
    using length_filter_update_one[of "consolidated_query r s" f P "notifications d"] assms(1,3)
    unfolding consolidated_invariant_def by (meson le_trans)
  then show ?thesis using assms(1,2) by (simp add: consolidated_invariant_def map_update_one)
qed

lemma invariant_update_many:
  assumes "consolidated_invariant d" "\<And>x. n_id (f x) = n_id x"
    "\<And>r s x. consolidated_query r s (f x) \<Longrightarrow> consolidated_query r s x"
  shows "consolidated_invariant (d\<lparr>notifications := update_many P f (notifications d)\<rparr>)"
proof -
  have "length (filter (consolidated_query r s) (update_many P f (notifications d))) \<le> 1" for r s
    using length_filter_update_many[of "consolidated_query r s" f P "notifications d"] assms(1,3)
    unfolding consolidated_invariant_def by (meson le_trans)
  then show ?thesis using assms(1,2) by (simp add: consolidated_invariant_def map_update_many)
qed

lemma invariant_delete_many:
  assumes "consolidated_invariant d"
  shows "consolidated_invariant (d\<lparr>notifications := delete_many P (notifications d)\<rparr>)"
proof -
  have "length (filter (consolidated_query r s) (delete_many P (notifications d))) \<le> 1" for r s
    using length_filter_delete_many[of "consolidated_query r s" P "notifications d"] assms
    unfolding consolidated_invariant_def by (meson le_trans)
  moreover have "distinct (map n_id (delete_many P (notifications d)))"
    using assms unfolding consolidated_invariant_def delete_many_def by (simp add: distinct_map_filter)
  ultimately show ?thesis by (simp add: consolidated_invariant_def)
qed

lemma invariant_append:
  assumes "consolidated_invariant d" "n_id n \<notin> set (map n_id (notifications d))"
    "\<And>r s. consolidated_query r s n \<Longrightarrow> filter (consolidated_query r s) (notifications d) = []"
  shows "consolidated_invariant (d\<lparr>notifications := notifications d @ [n]\<rparr>)"
proof -
  have "length (filter (consolidated_query r s) (notifications d @ [n])) \<le> 1" for r s
  proof (cases "consolidated_query r s n")
    case True
    then show ?thesis using assms(3) by simp
  next
    case False
    then show ?thesis using assms(1) by (simp add: consolidated_invariant_def)
  qed
  then show ?thesis using assms(1,2) by (simp add: consolidated_invariant_def)
qed

lemma invariant_create_consolidated:
  assumes "consolidated_invariant d"
  shows "consolidated_invariant (snd (create_consolidated_message_notification now new_id d md receiver_id))"
proof (cases "ObjectId receiver_id")
  case None
  then show ?thesis using assms by (simp add: create_consolidated_message_notification_def)
next
  case (Some rid)
  show ?thesis
  proof (cases "find_existing_notification d md rid")
    case None
    then have empty: "filter (consolidated_query rid (md_sender_id md)) (notifications d) = []"
      by (simp add: find_existing_notification_def find_None_filter)
    show ?thesis
    proof (cases "new_id \<in> set (map n_id (notifications d))")
      case True
      then show ?thesis using assms Some None
        by (simp add: create_consolidated_message_notification_def write_consolidated_notification_def
            insert_one_def Let_def)
    next
      case False
      from create_when_none[OF Some empty False, of now]
      obtain n where n: "create_consolidated_message_notification now new_id d md receiver_id
               = (Some n, d\<lparr>notifications := notifications d @ [n]\<rparr>)" "n_id n = new_id"
        "consolidated_query rid (md_sender_id md) n" by blast
      have "filter (consolidated_query r s) (notifications d) = []" if "consolidated_query r s n" for r s
      proof -
        have "r = rid \<and> s = md_sender_id md" using that n(3) by (auto simp: consolidated_query_def)
        then show ?thesis using empty by simp
      qed
      then show ?thesis using invariant_append[OF assms, of n] n(1,2) False by simp
    qed
  next
    case (Some ex)
    then show ?thesis using \<open>ObjectId receiver_id = Some rid\<close>
      by (auto simp: create_consolidated_message_notification_def write_consolidated_notification_def
            Let_def intro!: invariant_update_one[OF assms])
  qed
qed

lemma invariant_create_notification:
  assumes "consolidated_invariant d" "notification_type \<noteq> ''new_message''"
  shows "consolidated_invariant (snd (create_notification now new_id d user_id notification_type msg data))"
proof (cases "ObjectId user_id")
  case None
  then show ?thesis using assms by (simp add: create_notification_def)
next
  case (Some uid)
  let ?n = "\<lparr>n_id = new_id, n_user_id = uid, n_type = notification_type,
                  n_message = msg, n_data = data, n_is_read = False, n_created_at = now,
                  n_updated_at = None, n_read_at = None\<rparr>"
  show ?thesis
  proof (cases "new_id \<in> set (map n_id (notifications d))")
    case True
    then show ?thesis using assms Some by (simp add: create_notification_def insert_one_def)
  next
    case False
    have "consolidated_invariant (d\<lparr>notifications := notifications d @ [?n]\<rparr>)"
      by (rule invariant_append[OF assms(1)]) (use False assms(2) in \<open>auto simp: consolidated_query_def\<close>)
    then show ?thesis using False Some by (simp add: create_notification_def insert_one_def Let_def)
  qed
qed

lemma invariant_mark_message_as_read:
  assumes "consolidated_invariant d"
  shows "consolidated_invariant (snd (mark_message_as_read now new_id d message_id user_id))"
proof -
  have m: "consolidated_invariant (d\<lparr>messages := ms\<rparr>)" for ms
    using assms by (simp add: consolidated_invariant_def)
  show ?thesis
    using assms m
    by (auto simp: mark_message_as_read_def Let_def invariant_create_notification
        split: option.splits)
qed

lemma sequence_invariant: "reachable_in_sequence d \<Longrightarrow> consolidated_invariant d"
proof (induction rule: reachable_in_sequence.induct)
  case (start d)
  then show ?case by (simp add: consolidated_invariant_def)
next
  case (consolidated d now new_id md receiver_id)
  then show ?case by (simp add: invariant_create_consolidated)
next
  case (other_notification d notification_type now new_id user_id msg data)
  then show ?case by (simp add: invariant_create_notification)
next
  case (message_read d now new_id message_id user_id)
  then show ?case by (simp add: invariant_mark_message_as_read)
next
  case (mark_one d notification_id user_id)
  then show ?case
    by (auto simp: mark_notification_as_read_def Let_def consolidated_query_def
        intro!: invariant_update_one split: option.splits)
next
  case (mark_all d user_id)
  then show ?case
    by (auto simp: mark_all_notifications_as_read_def Let_def consolidated_query_def
        intro!: invariant_update_many split: option.splits)
next
  case (mark_all_message d now user_id sender_id)
  then show ?case
    by (auto simp: mark_all_message_notifications_as_read_def Let_def consolidated_query_def
        intro!: invariant_update_many split: option.splits)
next
  case (cleanup_old d now days_old)
  then show ?case by (auto simp: cleanup_old_notifications_def Let_def invariant_delete_many)
next
  case (cleanup_read d user_id)
  then show ?case
    by (auto simp: cleanup_read_notifications_def Let_def invariant_delete_many split: option.splits)
next
  case (delete_of d profile_ids)
  then show ?case by (simp add: delete_notifications_of_def invariant_delete_many)
next
  case (new_message d now new_id chat_id sender_id content message_type)
  then show ?case
    by (auto simp: create_message_def Let_def consolidated_invariant_def split: option.splits)
next
  case (status d now profile_id st)
  then show ?case
    by (auto simp: update_user_status_def Let_def consolidated_invariant_def split: option.splits)
qed

lemma sequence_send_consecutive:
  "reachable_in_sequence d \<Longrightarrow> reachable_in_sequence (send_consecutive d cs receiver_id)"
  by (induction cs arbitrary: d) (auto intro: reachable_in_sequence.consolidated)

text \<open>
  C2. In a store whose rows have different ids and in which the recipient has no unread
  \<^verbatim>\<open>new_message\<close> row for the sender, K calls of the consolidator for messages of
  that sender, served one after the other (K at least one, the first with an id the
  store does not hold yet), leave exactly one unread \<^verbatim>\<open>new_message\<close> row for the
  pair, and its \<^verbatim>\<open>message_count\<close> is K. In every store that operations served one
  after the other reach from a store without notifications, every recipient has at most
  one unread \<^verbatim>\<open>new_message\<close> row for each sender, and the K calls lead from such a
  store to such a store.
\<close>

theorem consecutive_messages_one_row:
  assumes "distinct (map n_id (notifications d))" and "ObjectId receiver_id = Some rid"
    and "filter (consolidated_query rid sender_id) (notifications d) = []"
    and "list_all (\<lambda>k. md_sender_id (call_md k) = sender_id) (c # cs)"
    and "call_new_id c \<notin> set (map n_id (notifications d))"
  shows "(\<exists>n. filter (consolidated_query rid sender_id)
                 (notifications (send_consecutive d (c # cs) receiver_id)) = [n]
              \<and> d_message_count (n_data n) = Some (int (length (c # cs))))
         \<and> (reachable_in_sequence d \<longrightarrow>
               reachable_in_sequence (send_consecutive d (c # cs) receiver_id))
         \<and> (\<forall>d' rid' sender_id'. reachable_in_sequence d' \<longrightarrow>
               length (filter (consolidated_query rid' sender_id') (notifications d')) \<le> 1)"
proof -
  let ?d1 = "snd (create_consolidated_message_notification (call_now c) (call_new_id c) d (call_md c) receiver_id)"
  have s: "md_sender_id (call_md c) = sender_id" and rest: "list_all (\<lambda>k. md_sender_id (call_md k) = sender_id) cs"
    using assms(4) by simp_all
  from create_when_none[OF assms(2), of "call_md c" d "call_new_id c" "call_now c"] assms(3,5) s
  obtain n where n: "?d1 = d\<lparr>notifications := notifications d @ [n]\<rparr>" "n_id n = call_new_id c"
    "d_message_count (n_data n) = Some 1" "consolidated_query rid sender_id n"
    by auto
  have one: "filter (consolidated_query rid sender_id) (notifications ?d1) = [n]"
    using n(1,4) assms(3) by simp
  have dist: "distinct (map n_id (notifications ?d1))"
    using assms(1) n(1,2) assms(5) by simp
  from send_consecutive_from_one[OF assms(2) dist one n(3) rest]
  have first: "\<exists>n. filter (consolidated_query rid sender_id)
                 (notifications (send_consecutive d (c # cs) receiver_id)) = [n]
              \<and> d_message_count (n_data n) = Some (int (length (c # cs)))"
    by (simp add: add.commute)
  have second: "reachable_in_sequence d \<longrightarrow>
               reachable_in_sequence (send_consecutive d (c # cs) receiver_id)"
    using sequence_send_consecutive by blast
  have third: "\<forall>d' rid' sender_id'. reachable_in_sequence d' \<longrightarrow>
               length (filter (consolidated_query rid' sender_id') (notifications d')) \<le> 1"
    using sequence_invariant by (auto simp: consolidated_invariant_def)
  show ?thesis using first second third by blast
qed

theorem consecutive_messages_one_row_witness:
  "map (\<lambda>n. d_message_count (n_data n))
     (filter (consolidated_query (Oid bob) alice)
        (notifications (send_consecutive example_db
           [example_call 1 ''hi'', example_call 2 ''there''] bob))) = [Some 2]
   \<and> map n_message
     (filter (consolidated_query (Oid bob) alice)
        (notifications (send_consecutive example_db
           [example_call 1 ''hi'', example_call 2 ''there''] bob))) = [''Alice: there'']
   \<and> reachable_in_sequence (send_consecutive example_db
           [example_call 1 ''hi'', example_call 2 ''there''] bob)"
proof -
  have r: "reachable_in_sequence example_db"
    by (rule reachable_in_sequence.start) (simp add: example_db_def)
  have d: "distinct (map n_id (notifications example_db))" by (simp add: example_db_def)
  have e: "filter (consolidated_query (Oid bob) alice) (notifications example_db) = []"
    by (simp add: example_db_def)
  have l: "list_all (\<lambda>k. md_sender_id (call_md k) = alice) [example_call 1 ''hi'', example_call 2 ''there'']"
    by (simp add: example_call_def example_md_def)
  have f: "call_new_id (example_call 1 ''hi'') \<notin> set (map n_id (notifications example_db))"
    by (simp add: example_db_def)
  note t = consecutive_messages_one_row[OF d ObjectId_bob e l f]
  from t have "map (\<lambda>n. d_message_count (n_data n))
     (filter (consolidated_query (Oid bob) alice)
        (notifications (send_consecutive example_db
           [example_call 1 ''hi'', example_call 2 ''there''] bob))) = [Some 2]"
    by auto
  moreover have "map n_message
     (filter (consolidated_query (Oid bob) alice)
        (notifications (send_consecutive example_db
           [example_call 1 ''hi'', example_call 2 ''there''] bob))) = [''Alice: there'']"
    by (simp add: consolidator_simps example_simps)
  moreover from t r have "reachable_in_sequence (send_consecutive example_db
           [example_call 1 ''hi'', example_call 2 ''there''] bob)"
    by blast
  ultimately show ?thesis by simp
qed

text \<open>
  Two calls whose requests to the store alternate leave two unread rows for the pair;
  a third call, served alone, finds the first of them and counts on: after three messages
  and no mark-read the pair has two unread rows, counting two messages and one.
\<close>

theorem overlapping_calls_leave_two_rows:
  "length (filter (consolidated_query (Oid bob) alice) (notifications raced_db)) = 2
   \<and> map (\<lambda>n. d_message_count (n_data n))
       (filter (consolidated_query (Oid bob) alice)
          (notifications (send_consecutive raced_db [example_call 3 ''again''] bob)))
     = [Some 2, Some 1]"
  by (simp add: raced_db_def example_calls_def consolidator_simps example_simps)

section \<open>A read notification is left alone\<close>

lemma update_one_unique_key:
  assumes "distinct (map key xs)" "ex \<in> set xs" "P ex" "\<And>x. P x \<Longrightarrow> key x = key ex"
  shows "update_one P f xs = map (\<lambda>x. if x = ex then f x else x) xs"
  using assms(1,2)
proof (induction xs)
  case Nil
  then show ?case by simp
next
  case (Cons x xs)
  show ?case
  proof (cases "x = ex")
    case True
    have "ex \<notin> set xs" using Cons.prems(1) True by force
    then have "map (\<lambda>x. if x = ex then f x else x) xs = xs" by (induction xs) auto
    then show ?thesis using True assms(3) by simp
  next
    case False
    then have "ex \<in> set xs" using Cons.prems(2) by simp
    then have "key ex \<in> set (map key xs)" by simp
    then have "key x \<noteq> key ex" using Cons.prems(1) by auto
    then have "\<not> P x" using assms(4) by blast
    then show ?thesis using Cons.IH Cons.prems(1) \<open>ex \<in> set xs\<close> False by simp
  qed
qed

lemma filter_singleton_only: "filter Q xs = [ex] \<Longrightarrow> x \<in> set xs \<Longrightarrow> Q x \<Longrightarrow> x = ex"
proof -
  assume a: "filter Q xs = [ex]" and b: "x \<in> set xs" "Q x"
  from a have "set (filter Q xs) = set [ex]" by (rule arg_cong)
  moreover have "x \<in> set (filter Q xs)" using b by simp
  ultimately show ?thesis by simp
qed

lemma find_Some_filter_le1:
  assumes "find Q xs = Some ex" "length (filter Q xs) \<le> 1"
  shows "filter Q xs = [ex]"
proof -
  from assms(1) obtain ys where "filter Q xs = ex # ys"
    by (auto simp: find_hd_filter split: list.splits)
  then show ?thesis using assms(2) by simp
qed

lemma create_fresh_row:
  assumes "ObjectId receiver_id = Some rid"
    and "filter (consolidated_query rid (md_sender_id md)) (notifications d) = []"
    and "new_id \<notin> set (map n_id (notifications d))"
  shows "creates_fresh_row now new_id d md receiver_id"
proof -
  have "find_existing_notification d md rid = None"
    using assms(2) by (simp add: find_existing_notification_def find_None_filter)
  then show ?thesis using assms(1,3)
    by (simp add: creates_fresh_row_def create_consolidated_message_notification_def
        write_consolidated_notification_def insert_one_def Let_def)
qed

lemma filter_update_many_empty:
  assumes "\<And>x. Q x \<Longrightarrow> P x" "\<And>x. \<not> Q (f x)"
  shows "filter Q (update_many P f xs) = []"
  unfolding update_many_def using assms by (induction xs) auto

text \<open>
  C4. Let the recipient's id be well formed and the new id not be in the store. If the
  rows have different ids and the recipient has exactly one unread \<^verbatim>\<open>new_message\<close>
  row for the sender, then \<^verbatim>\<open>mark_notification_as_read\<close>, called with that row's id
  by the recipient, succeeds and changes nothing but the \<^verbatim>\<open>is_read\<close> flag of that
  row, and the next call of the consolidator for the pair appends a new unread row with
  \<^verbatim>\<open>message_count\<close> 1 and leaves every older row, the read one among them, as it
  was. After the bulk operations (\<^verbatim>\<open>mark_all_message_notifications_as_read\<close> for
  that sender or for every sender, \<^verbatim>\<open>mark_all_notifications_as_read\<close>) the next call
  does the same in every store.
\<close>

theorem read_notification_starts_fresh_cycle:
  assumes "ObjectId receiver_id = Some rid"
    and "new_id \<notin> set (map n_id (notifications d))"
  shows "(distinct (map n_id (notifications d))
            \<and> filter (consolidated_query rid (md_sender_id md)) (notifications d) = [ex]
            \<and> ObjectId notification_id = Some (n_id ex)
          \<longrightarrow> fst (mark_notification_as_read d notification_id receiver_id)
              \<and> notifications (snd (mark_notification_as_read d notification_id receiver_id))
                  = map (\<lambda>n. if n = ex then ex\<lparr>n_is_read := True\<rparr> else n) (notifications d)
              \<and> creates_fresh_row now new_id
                  (snd (mark_notification_as_read d notification_id receiver_id)) md receiver_id)
         \<and> creates_fresh_row now new_id
             (snd (mark_all_message_notifications_as_read now' d receiver_id (Some (md_sender_id md))))
             md receiver_id
         \<and> creates_fresh_row now new_id
             (snd (mark_all_message_notifications_as_read now' d receiver_id None))
             md receiver_id
         \<and> creates_fresh_row now new_id (snd (mark_all_notifications_as_read d receiver_id))
             md receiver_id"
proof -
  let ?Q = "consolidated_query rid (md_sender_id md)"
  let ?f = "\<lambda>n. n\<lparr>n_is_read := True\<rparr>"
  let ?P = "\<lambda>n. n_id n = n_id ex \<and> n_user_id n = rid"
  let ?m = "mark_notification_as_read d notification_id receiver_id"
  have single: "fst ?m
      \<and> notifications (snd ?m) = map (\<lambda>n. if n = ex then ex\<lparr>n_is_read := True\<rparr> else n) (notifications d)
      \<and> creates_fresh_row now new_id (snd ?m) md receiver_id"
    if dist: "distinct (map n_id (notifications d))"
      and one: "filter ?Q (notifications d) = [ex]"
      and nid: "ObjectId notification_id = Some (n_id ex)"
  proof -
    have exin: "ex \<in> set (notifications d)" and qex: "?Q ex"
      using filter_singletonD[OF one] by auto
    have pex: "?P ex" using qex by (simp add: consolidated_query_def)
    have unread: "n_is_read ex = False" using qex by (simp add: consolidated_query_def)
    have upd: "update_one ?P ?f (notifications d) = map (\<lambda>n. if n = ex then ?f n else n) (notifications d)"
      by (rule update_one_unique_key[where P = "?P" and key = n_id and ex = ex, OF dist exin pex]) simp
    have "find ?P (notifications d) \<noteq> None"
      using exin pex by (induction "notifications d") (auto simp: find_None_iff)
    then obtain x where x: "find ?P (notifications d) = Some x" by auto
    then have "x \<in> set (notifications d)" "n_id x = n_id ex" using find_Some_mem[OF x] by auto
    then have "x = ex" using dist exin by (meson distinct_map inj_onD)
    have "n_is_read (?f ex) \<noteq> n_is_read ex" using unread by simp
    then have "?f ex \<noteq> ex" by metis
    then have mc: "0 < modified_count_one ?P ?f (notifications d)"
      using x \<open>x = ex\<close> by (simp add: modified_count_one_def)
    have m: "?m = (0 < modified_count_one ?P ?f (notifications d),
                   d\<lparr>notifications := update_one ?P ?f (notifications d)\<rparr>)"
      using assms(1) nid by (simp add: mark_notification_as_read_def Let_def)
    have c1: "fst ?m" using m mc by simp
    have c2: "notifications (snd ?m) = map (\<lambda>n. if n = ex then ex\<lparr>n_is_read := True\<rparr> else n) (notifications d)"
      using m upd by (simp cong: if_cong)
    have "filter ?Q (notifications (snd ?m)) = []"
    proof -
      have "\<not> ?Q y" if "y \<in> set (notifications (snd ?m))" for y
      proof -
        from that c2 obtain z where z: "z \<in> set (notifications d)" "y = (if z = ex then ex\<lparr>n_is_read := True\<rparr> else z)"
          by auto
        show ?thesis
        proof (cases "z = ex")
          case True
          then show ?thesis using z(2) by (simp add: consolidated_query_def)
        next
          case False
          then have "\<not> ?Q z" using filter_singleton_only[OF one z(1)] by blast
          then show ?thesis using z(2) False by simp
        qed
      qed
      then show ?thesis by (simp add: filter_empty_conv)
    qed
    moreover have "map n_id (notifications (snd ?m)) = map n_id (notifications d)"
      using m by (simp add: map_update_one)
    ultimately have c3: "creates_fresh_row now new_id (snd ?m) md receiver_id"
      using create_fresh_row[OF assms(1), of md "snd ?m" new_id now] assms(2) by simp
    show ?thesis using c1 c2 c3 by blast
  qed
  let ?b = "snd (mark_all_message_notifications_as_read now' d receiver_id (Some (md_sender_id md)))"
  have "filter ?Q (notifications ?b) = []"
    using assms(1)
    by (auto simp: mark_all_message_notifications_as_read_def Let_def consolidated_query_def
        intro!: filter_update_many_empty)
  moreover have "map n_id (notifications ?b) = map n_id (notifications d)"
    using assms(1) by (simp add: mark_all_message_notifications_as_read_def Let_def map_update_many)
  ultimately have c4: "creates_fresh_row now new_id ?b md receiver_id"
    using create_fresh_row[OF assms(1), of md ?b new_id now] assms(2) by simp
  let ?n = "snd (mark_all_message_notifications_as_read now' d receiver_id None)"
  have "filter ?Q (notifications ?n) = []"
    using assms(1)
    by (auto simp: mark_all_message_notifications_as_read_def Let_def consolidated_query_def
        intro!: filter_update_many_empty)
  moreover have "map n_id (notifications ?n) = map n_id (notifications d)"
    using assms(1) by (simp add: mark_all_message_notifications_as_read_def Let_def map_update_many)
  ultimately have c5: "creates_fresh_row now new_id ?n md receiver_id"
    using create_fresh_row[OF assms(1), of md ?n new_id now] assms(2) by simp
  let ?a = "snd (mark_all_notifications_as_read d receiver_id)"
  have "filter ?Q (notifications ?a) = []"
    using assms(1)
    by (auto simp: mark_all_notifications_as_read_def Let_def consolidated_query_def
        intro!: filter_update_many_empty)
  moreover have "map n_id (notifications ?a) = map n_id (notifications d)"
    using assms(1) by (simp add: mark_all_notifications_as_read_def Let_def map_update_many)
  ultimately have c6: "creates_fresh_row now new_id ?a md receiver_id"
    using create_fresh_row[OF assms(1), of md ?a new_id now] assms(2) by simp
  show ?thesis using single c4 c5 c6 by blast
qed

lemma one_message_db_notifications:
  "notifications one_message_db =
     [\<lparr>n_id = Oid ''eeeeeeeeeeeeeeeeeeeeeee1'', n_user_id = Oid bob, n_type = ''new_message'',
       n_message = ''Alice: hi'',
       n_data = \<lparr>d_message_id = Some ''eeeeeeeeeeeeeeeeeeeeeee0'', d_chat_id = Some lobby,
                 d_sender_id = Some alice, d_sender_name = Some (Some ''Alice''), d_content = Some ''hi'',
                 d_chat_name = Some ''Chat'', d_message_count = Some 1,
                 d_latest_content = Some ''hi'', d_latest_timestamp = Some 5, d_reader_id = None\<rparr>,
       n_is_read = False, n_created_at = 1, n_updated_at = Some 1, n_read_at = None\<rparr>]"
  by (simp add: one_message_db_def consolidator_simps example_simps)

lemma ObjectId_e0: "ObjectId ''eeeeeeeeeeeeeeeeeeeeeee0'' = Some (Oid ''eeeeeeeeeeeeeeeeeeeeeee0'')"
  by (simp add: ObjectId_def is_hex_def hex_lower_def is_space_def)

lemma ObjectId_e1: "ObjectId ''eeeeeeeeeeeeeeeeeeeeeee1'' = Some (Oid ''eeeeeeeeeeeeeeeeeeeeeee1'')"
  by (simp add: ObjectId_def is_hex_def hex_lower_def is_space_def)

theorem read_notification_starts_fresh_cycle_witness:
  "fst (mark_notification_as_read one_message_db ''eeeeeeeeeeeeeeeeeeeeeee1'' bob)
   \<and> creates_fresh_row 9 (example_ids 2)
        (snd (mark_notification_as_read one_message_db ''eeeeeeeeeeeeeeeeeeeeeee1'' bob))
        (example_md ''again'') bob
   \<and> creates_fresh_row 9 (example_ids 2)
        (snd (mark_all_message_notifications_as_read 8 one_message_db bob (Some alice)))
        (example_md ''again'') bob"
proof -
  let ?ex = "hd (notifications one_message_db)"
  have d: "distinct (map n_id (notifications one_message_db))"
    by (simp add: one_message_db_notifications)
  have f: "filter (consolidated_query (Oid bob) (md_sender_id (example_md ''again'')))
             (notifications one_message_db) = [?ex]"
    by (simp add: one_message_db_notifications consolidated_query_def example_md_def)
  have i: "ObjectId ''eeeeeeeeeeeeeeeeeeeeeee1'' = Some (n_id ?ex)"
    by (simp add: one_message_db_notifications ObjectId_e1)
  have n: "example_ids 2 \<notin> set (map n_id (notifications one_message_db))"
    by (simp add: one_message_db_notifications example_ids_def)
  have s: "md_sender_id (example_md ''again'') = alice" by (simp add: example_md_def)
  from read_notification_starts_fresh_cycle[OF ObjectId_bob n,
      of "example_md ''again''" ?ex "''eeeeeeeeeeeeeeeeeeeeeee1''" 9 8] d f i s
  show ?thesis by simp
qed

text \<open>
  In the store that two overlapping calls leave, the pair has two unread rows. Marking
  the first read succeeds, but the next call of the consolidator finds the second and
  counts on it: no new row, and that row counts two messages.
\<close>

theorem second_unread_row_is_counted_on:
  "fst (mark_notification_as_read raced_db ''eeeeeeeeeeeeeeeeeeeeeee1'' bob)
   \<and> \<not> creates_fresh_row 9 (example_ids 3)
        (snd (mark_notification_as_read raced_db ''eeeeeeeeeeeeeeeeeeeeeee1'' bob))
        (example_md ''again'') bob
   \<and> map (\<lambda>n. (n_is_read n, d_message_count (n_data n)))
       (notifications (snd (create_consolidated_message_notification 9 (example_ids 3)
          (snd (mark_notification_as_read raced_db ''eeeeeeeeeeeeeeeeeeeeeee1'' bob))
          (example_md ''again'') bob)))
     = [(True, Some 1), (False, Some 2)]"
  by (simp add: raced_db_def example_calls_def mark_notification_as_read_def
      modified_count_one_def creates_fresh_row_def consolidator_simps example_simps)

section \<open>Read receipts in the unread count\<close>

lemma update_one_append_last:
  "\<not> list_ex P xs \<Longrightarrow> P x \<Longrightarrow> update_one P f (xs @ [x]) = xs @ [f x]"
  by (induction xs) auto

lemma add_to_read_by_id [simp]: "m_id (add_to_read_by uid m) = m_id m"
  by (simp add: add_to_read_by_def)

text \<open>
  C10. When \<^verbatim>\<open>mark_message_as_read\<close> newly adds a reader who is not the sender of
  the message (the message exists, the ids are well formed, the driver's new id is not in
  the store), it succeeds and appends one unread row of type \<^verbatim>\<open>message_read\<close>
  addressed to the sender; \<^verbatim>\<open>get_unread_notifications_count\<close> of the sender is one
  more than before, and is back at its old value once the sender has marked that row
  read.
\<close>

theorem read_receipt_notification_raises_badge:
  assumes "ObjectId message_id = Some mid" and "ObjectId user_id = Some uid"
    and "find (\<lambda>m. m_id m = mid) (messages d) = Some m"
    and "uid \<notin> set (m_read_by m)"
    and "str_oid (m_sender_id m) \<noteq> user_id"
    and "ObjectId (str_oid (m_sender_id m)) = Some (m_sender_id m)"
    and "new_id \<notin> set (map n_id (notifications d))"
    and "ObjectId notification_id = Some new_id"
  shows "fst (mark_message_as_read now new_id d message_id user_id)
         \<and> notifications (snd (mark_message_as_read now new_id d message_id user_id))
             = notifications d @
               [\<lparr>n_id = new_id, n_user_id = m_sender_id m, n_type = ''message_read'',
                 n_message = ''Your message was read'',
                 n_data = empty_data\<lparr>d_message_id := Some message_id,
                                       d_reader_id := Some user_id,
                                       d_chat_id := Some (str_oid (m_chat_id m))\<rparr>,
                 n_is_read = False, n_created_at = now, n_updated_at = None, n_read_at = None\<rparr>]
         \<and> get_unread_notifications_count (snd (mark_message_as_read now new_id d message_id user_id))
               (str_oid (m_sender_id m))
             = get_unread_notifications_count d (str_oid (m_sender_id m)) + 1
         \<and> get_unread_notifications_count
               (snd (mark_notification_as_read
                       (snd (mark_message_as_read now new_id d message_id user_id))
                       notification_id (str_oid (m_sender_id m))))
               (str_oid (m_sender_id m))
             = get_unread_notifications_count d (str_oid (m_sender_id m))"
proof -
  let ?P = "\<lambda>m. m_id m = mid"
  let ?sender = "str_oid (m_sender_id m)"
  let ?row = "\<lparr>n_id = new_id, n_user_id = m_sender_id m, n_type = ''message_read'',
                 n_message = ''Your message was read'',
                 n_data = empty_data\<lparr>d_message_id := Some message_id,
                                       d_reader_id := Some user_id,
                                       d_chat_id := Some (str_oid (m_chat_id m))\<rparr>,
                 n_is_read = False, n_created_at = now, n_updated_at = None, n_read_at = None\<rparr>"
  let ?r = "mark_message_as_read now new_id d message_id user_id"
  have ne: "add_to_read_by uid m \<noteq> m"
  proof
    assume "add_to_read_by uid m = m"
    then have "m_read_by (add_to_read_by uid m) = m_read_by m" by simp
    then show False using assms(4) by (simp add: add_to_read_by_def)
  qed
  then have mc: "0 < modified_count_one ?P (add_to_read_by uid) (messages d)"
    using assms(3) by (simp add: modified_count_one_def)
  have fnd: "find ?P (update_one ?P (add_to_read_by uid) (messages d)) = Some (add_to_read_by uid m)"
    using find_update_one_same[of ?P "add_to_read_by uid" "messages d"] assms(3) by simp
  have same: "m_sender_id (add_to_read_by uid m) = m_sender_id m"
     "m_chat_id (add_to_read_by uid m) = m_chat_id m"
    by (simp_all add: add_to_read_by_def)
  have res: "?r = (True, d\<lparr>messages := update_one ?P (add_to_read_by uid) (messages d),
                            notifications := notifications d @ [?row]\<rparr>)"
    using assms(1,2,5,6,7) mc fnd same
    by (simp add: mark_message_as_read_def Let_def create_notification_def insert_one_def)
  have c1: "fst ?r" and c2: "notifications (snd ?r) = notifications d @ [?row]"
    using res by simp_all
  have c3: "get_unread_notifications_count (snd ?r) ?sender
             = get_unread_notifications_count d ?sender + 1"
    using c2 assms(6) by (simp add: get_unread_notifications_count_def)
  let ?Pn = "\<lambda>n. n_id n = new_id \<and> n_user_id n = m_sender_id m"
  have nex: "\<not> list_ex ?Pn (notifications d)"
    using assms(7) by (auto simp: list_ex_iff)
  have "notifications (snd (mark_notification_as_read (snd ?r) notification_id ?sender))
          = notifications d @ [?row\<lparr>n_is_read := True\<rparr>]"
    using assms(6,8) c2 update_one_append_last[OF nex, of ?row "\<lambda>n. n\<lparr>n_is_read := True\<rparr>"]
    by (simp add: mark_notification_as_read_def Let_def)
  then have c4: "get_unread_notifications_count
               (snd (mark_notification_as_read (snd ?r) notification_id ?sender)) ?sender
             = get_unread_notifications_count d ?sender"
    using assms(6) by (simp add: get_unread_notifications_count_def)
  show ?thesis using c1 c2 c3 c4 by blast
qed

lemma message_db_eq:
  "message_db = example_db\<lparr>messages :=
      [\<lparr>m_id = Oid ''eeeeeeeeeeeeeeeeeeeeeee0'', m_chat_id = Oid lobby, m_sender_id = Oid alice,
        m_content = ''hi'', m_message_type = ''text'', m_timestamp = 3, m_is_edited = False,
        m_is_deleted = False, m_read_by = []\<rparr>],
      chats := [\<lparr>c_id = Oid lobby, c_participants = [Oid alice, Oid bob], c_name = None,
                c_is_group = None, c_last_activity = Some 3\<rparr>]\<rparr>"
  by (simp add: message_db_def create_message_def ObjectId_lobby ObjectId_alice Let_def
      insert_one_def example_db_def example_ids_def)

theorem read_receipt_notification_raises_badge_witness:
  "fst (mark_message_as_read 4 (example_ids 1) message_db ''eeeeeeeeeeeeeeeeeeeeeee0'' bob)
   \<and> get_unread_notifications_count
        (snd (mark_message_as_read 4 (example_ids 1) message_db ''eeeeeeeeeeeeeeeeeeeeeee0'' bob))
        alice = 1
   \<and> get_unread_notifications_count
        (snd (mark_notification_as_read
           (snd (mark_message_as_read 4 (example_ids 1) message_db ''eeeeeeeeeeeeeeeeeeeeeee0'' bob))
           ''eeeeeeeeeeeeeeeeeeeeeee1'' alice))
        alice = 0"
proof -
  let ?m = "\<lparr>m_id = Oid ''eeeeeeeeeeeeeeeeeeeeeee0'', m_chat_id = Oid lobby, m_sender_id = Oid alice,
        m_content = ''hi'', m_message_type = ''text'', m_timestamp = 3, m_is_edited = False,
        m_is_deleted = False, m_read_by = []\<rparr>"
  have f: "find (\<lambda>m. m_id m = Oid ''eeeeeeeeeeeeeeeeeeeeeee0'') (messages message_db) = Some ?m"
    by (simp add: message_db_eq)
  have r: "Oid bob \<notin> set (m_read_by ?m)" by simp
  have s: "str_oid (m_sender_id ?m) \<noteq> bob" by (simp add: alice_def bob_def)
  have c: "ObjectId (str_oid (m_sender_id ?m)) = Some (m_sender_id ?m)" by (simp add: ObjectId_alice)
  have n: "example_ids 1 \<notin> set (map n_id (notifications message_db))"
    by (simp add: message_db_eq example_db_def)
  have i: "ObjectId ''eeeeeeeeeeeeeeeeeeeeeee1'' = Some (example_ids 1)"
    by (simp add: ObjectId_e1 example_ids_def)
  have z: "get_unread_notifications_count message_db alice = 0"
    by (simp add: get_unread_notifications_count_def ObjectId_alice message_db_eq example_db_def)
  from read_receipt_notification_raises_badge[OF ObjectId_e0 ObjectId_bob f r s c n i, of 4] z
  show ?thesis by simp
qed

section \<open>Two calls of the consolidator at the same time\<close>

lemma sequential_schedule_consecutive:
  "ObjectId receiver_id = Some rid \<Longrightarrow>
   run_phases calls rid [Find a, Write a, Find b, Write b] existing d
     = send_consecutive d [calls a, calls b] receiver_id"
  by (simp add: create_consolidated_message_notification_def)

lemma write_without_existing:
  assumes "new_id \<notin> set (map n_id (notifications d))"
  shows "\<exists>n. write_consolidated_notification now new_id d md rid None
               = (Some n, d\<lparr>notifications := notifications d @ [n]\<rparr>)
             \<and> n_id n = new_id \<and> d_message_count (n_data n) = Some 1
             \<and> consolidated_query rid (md_sender_id md) n"
  using assms
  by (simp add: write_consolidated_notification_def insert_one_def Let_def consolidated_query_def)

lemma both_insert:
  assumes "filter (consolidated_query rid sender_id) (notifications d) = []"
    and "md_sender_id (call_md (calls a)) = sender_id"
    and "md_sender_id (call_md (calls b)) = sender_id"
    and "call_new_id (calls a) \<notin> set (map n_id (notifications d))"
    and "call_new_id (calls b) \<notin> set (map n_id (notifications d))"
    and "call_new_id (calls a) \<noteq> call_new_id (calls b)"
  shows "map (\<lambda>n. d_message_count (n_data n))
           (filter (consolidated_query rid sender_id)
              (notifications
                 (snd (write_consolidated_notification (call_now (calls b)) (call_new_id (calls b))
                    (snd (write_consolidated_notification (call_now (calls a)) (call_new_id (calls a))
                            d (call_md (calls a)) rid None))
                    (call_md (calls b)) rid None))))
         = [Some 1, Some 1]"
proof -
  let ?d1 = "snd (write_consolidated_notification (call_now (calls a)) (call_new_id (calls a))
                            d (call_md (calls a)) rid None)"
  from write_without_existing[OF assms(4), of "call_now (calls a)" "call_md (calls a)" rid]
  obtain n1 where n1: "?d1 = d\<lparr>notifications := notifications d @ [n1]\<rparr>"
    "n_id n1 = call_new_id (calls a)" "d_message_count (n_data n1) = Some 1"
    "consolidated_query rid sender_id n1"
    using assms(2) by auto
  have fresh: "call_new_id (calls b) \<notin> set (map n_id (notifications ?d1))"
    using n1(1,2) assms(5,6) by auto
  from write_without_existing[OF fresh, of "call_now (calls b)" "call_md (calls b)" rid]
  obtain n2 where n2: "snd (write_consolidated_notification (call_now (calls b)) (call_new_id (calls b))
                    ?d1 (call_md (calls b)) rid None) = ?d1\<lparr>notifications := notifications ?d1 @ [n2]\<rparr>"
    "d_message_count (n_data n2) = Some 1" "consolidated_query rid sender_id n2"
    using assms(3) by auto
  show ?thesis
    unfolding n2(1) using n1 n2(2,3) assms(1) by simp
qed

lemma create_one_row_step:
  assumes "ObjectId receiver_id = Some rid"
    and "distinct (map n_id (notifications d))"
    and "length (filter (consolidated_query rid sender_id) (notifications d)) \<le> 1"
    and "md_sender_id md = sender_id"
    and "new_id \<notin> set (map n_id (notifications d))"
  shows "length (filter (consolidated_query rid sender_id)
           (notifications (snd (create_consolidated_message_notification now new_id d md receiver_id)))) = 1
         \<and> distinct (map n_id
              (notifications (snd (create_consolidated_message_notification now new_id d md receiver_id))))"
proof (cases "filter (consolidated_query rid sender_id) (notifications d)")
  case Nil
  then have e: "filter (consolidated_query rid (md_sender_id md)) (notifications d) = []"
    using assms(4) by simp
  from create_when_none[OF assms(1) e assms(5), of now] assms(2,4,5) Nil
  show ?thesis by auto
next
  case (Cons ex rest)
  then have "rest = []" using assms(3) by simp
  then have o: "filter (consolidated_query rid (md_sender_id md)) (notifications d) = [ex]"
    using Cons assms(4) by simp
  from create_when_one[OF assms(1,2) o, of now new_id] assms(2,4)
  show ?thesis by auto
qed

lemma two_calls_in_sequence:
  assumes "ObjectId receiver_id = Some rid"
    and "distinct (map n_id (notifications d))"
    and "length (filter (consolidated_query rid sender_id) (notifications d)) \<le> 1"
    and "md_sender_id (call_md (calls a)) = sender_id"
    and "md_sender_id (call_md (calls b)) = sender_id"
    and "call_new_id (calls a) \<notin> set (map n_id (notifications d))"
  shows "length (filter (consolidated_query rid sender_id)
           (notifications (run_phases calls rid [Find a, Write a, Find b, Write b] existing d))) = 1"
proof -
  let ?d1 = "snd (create_consolidated_message_notification (call_now (calls a))
                (call_new_id (calls a)) d (call_md (calls a)) receiver_id)"
  from create_one_row_step[OF assms(1,2,3,4,6), of "call_now (calls a)"]
  have l1: "length (filter (consolidated_query rid sender_id) (notifications ?d1)) = 1"
    and dist1: "distinct (map n_id (notifications ?d1))" by auto
  from l1 obtain ex where "filter (consolidated_query rid sender_id) (notifications ?d1) = [ex]"
    by (auto simp: length_Suc_conv)
  then have o: "filter (consolidated_query rid (md_sender_id (call_md (calls b)))) (notifications ?d1) = [ex]"
    using assms(5) by simp
  from create_when_one[OF assms(1) dist1 o, of "call_now (calls b)" "call_new_id (calls b)"]
  have "length (filter (consolidated_query rid sender_id)
           (notifications (send_consecutive d [calls a, calls b] receiver_id))) = 1"
    using assms(5) by auto
  then show ?thesis using sequential_schedule_consecutive[OF assms(1)] by simp
qed

text \<open>
  C9. The consolidator is a read followed by a write, both sent by the caller: the
  \<^verbatim>\<open>find_one\<close> for an unread row, then an \<^verbatim>\<open>update_one\<close> of the row found or
  an \<^verbatim>\<open>insert_one\<close>. Take two calls for the same recipient and sender, with new ids
  that differ and are not in the store, on a store whose rows have different ids. If the
  pair has at most one unread row and the store serves the calls one after the other, in
  either order, the schedule is the two calls in sequence and leaves exactly one unread
  row for the pair. If the pair has no unread row and the store serves the
  \<^verbatim>\<open>find_one\<close> of both calls before the write of either, in any of the four orders,
  both calls insert and the pair has two unread rows, each counting one message.
\<close>

theorem consolidator_reads_then_writes:
  assumes "ObjectId receiver_id = Some rid"
    and "distinct (map n_id (notifications d))"
    and "md_sender_id (call_md (calls Thread1)) = sender_id"
    and "md_sender_id (call_md (calls Thread2)) = sender_id"
    and "call_new_id (calls Thread1) \<notin> set (map n_id (notifications d))"
    and "call_new_id (calls Thread2) \<notin> set (map n_id (notifications d))"
    and "call_new_id (calls Thread1) \<noteq> call_new_id (calls Thread2)"
  shows "(length (filter (consolidated_query rid sender_id) (notifications d)) \<le> 1 \<longrightarrow>
            list_all
              (\<lambda>schedule.
                 length (filter (consolidated_query rid sender_id)
                   (notifications (run_phases calls rid schedule existing d))) = 1)
              [[Find Thread1, Write Thread1, Find Thread2, Write Thread2],
               [Find Thread2, Write Thread2, Find Thread1, Write Thread1]])
         \<and> run_phases calls rid [Find Thread1, Write Thread1, Find Thread2, Write Thread2] existing d
             = send_consecutive d [calls Thread1, calls Thread2] receiver_id
         \<and> (filter (consolidated_query rid sender_id) (notifications d) = [] \<longrightarrow>
            list_all
              (\<lambda>schedule.
                 map (\<lambda>n. d_message_count (n_data n))
                   (filter (consolidated_query rid sender_id)
                      (notifications (run_phases calls rid schedule existing d)))
                 = [Some 1, Some 1])
              [[Find Thread1, Find Thread2, Write Thread1, Write Thread2],
               [Find Thread1, Find Thread2, Write Thread2, Write Thread1],
               [Find Thread2, Find Thread1, Write Thread1, Write Thread2],
               [Find Thread2, Find Thread1, Write Thread2, Write Thread1]])"
proof -
  let ?Q = "consolidated_query rid sender_id"
  have seq: "length (filter ?Q (notifications
               (run_phases calls rid [Find Thread1, Write Thread1, Find Thread2, Write Thread2] existing d))) = 1
           \<and> length (filter ?Q (notifications
               (run_phases calls rid [Find Thread2, Write Thread2, Find Thread1, Write Thread1] existing d))) = 1"
    if le: "length (filter ?Q (notifications d)) \<le> 1"
    using two_calls_in_sequence[where calls = calls and a = Thread1 and b = Thread2,
        OF assms(1,2) le assms(3,4,5)]
      two_calls_in_sequence[where calls = calls and a = Thread2 and b = Thread1,
        OF assms(1,2) le assms(4,3,6)]
    by blast
  have eq: "run_phases calls rid [Find Thread1, Write Thread1, Find Thread2, Write Thread2] existing d
             = send_consecutive d [calls Thread1, calls Thread2] receiver_id"
    using assms(1) by (rule sequential_schedule_consecutive)
  have race: "list_all
              (\<lambda>schedule.
                 map (\<lambda>n. d_message_count (n_data n))
                   (filter ?Q (notifications (run_phases calls rid schedule existing d)))
                 = [Some 1, Some 1])
              [[Find Thread1, Find Thread2, Write Thread1, Write Thread2],
               [Find Thread1, Find Thread2, Write Thread2, Write Thread1],
               [Find Thread2, Find Thread1, Write Thread1, Write Thread2],
               [Find Thread2, Find Thread1, Write Thread2, Write Thread1]]"
    if e: "filter ?Q (notifications d) = []"
  proof -
    have f1: "find_existing_notification d (call_md (calls Thread1)) rid = None"
      and f2: "find_existing_notification d (call_md (calls Thread2)) rid = None"
      using e assms(3,4) by (simp_all add: find_existing_notification_def find_None_filter)
    note ab = both_insert[where calls = calls and a = Thread1 and b = Thread2, OF e assms(3,4,5,6,7)]
    note ba = both_insert[where calls = calls and a = Thread2 and b = Thread1,
      OF e assms(4,3,6,5) assms(7)[symmetric]]
    show ?thesis using ab ba by (simp add: f1 f2)
  qed
  show ?thesis using seq eq race by simp
qed

theorem consolidator_reads_then_writes_witness:
  "length (filter (consolidated_query (Oid bob) alice)
        (notifications (run_phases example_calls (Oid bob)
           [Find Thread1, Write Thread1, Find Thread2, Write Thread2] (\<lambda>t. None) example_db))) = 1
   \<and> map (\<lambda>n. d_message_count (n_data n))
        (filter (consolidated_query (Oid bob) alice)
           (notifications (run_phases example_calls (Oid bob)
              [Find Thread2, Find Thread1, Write Thread1, Write Thread2] (\<lambda>t. None) example_db)))
       = [Some 1, Some 1]"
proof -
  have d: "distinct (map n_id (notifications example_db))" by (simp add: example_db_def)
  have s1: "md_sender_id (call_md (example_calls Thread1)) = alice"
    and s2: "md_sender_id (call_md (example_calls Thread2)) = alice"
    by (simp_all add: example_calls_def example_call_def example_md_def)
  have f1: "call_new_id (example_calls Thread1) \<notin> set (map n_id (notifications example_db))"
    and f2: "call_new_id (example_calls Thread2) \<notin> set (map n_id (notifications example_db))"
    by (simp_all add: example_db_def)
  have ne: "call_new_id (example_calls Thread1) \<noteq> call_new_id (example_calls Thread2)"
    by (simp add: example_calls_def example_call_def example_ids_def)
  have e: "filter (consolidated_query (Oid bob) alice) (notifications example_db) = []"
    by (simp add: example_db_def)
  have le: "length (filter (consolidated_query (Oid bob) alice) (notifications example_db)) \<le> 1"
    by (simp only: e) simp
  note t = consolidator_reads_then_writes[OF ObjectId_bob d s1 s2 f1 f2 ne, of "\<lambda>t. None",
      unfolded list.pred_inject]
  from t e le show ?thesis by blast
qed

text \<open>
  The two calls of the example, on the example store: served with both
  \<^verbatim>\<open>find_one\<close> first they leave two unread rows, each counting one message; served
  one after the other they leave one row that counts two.
\<close>

theorem interleaved_calls_leave_two_rows:
  "length (filter (consolidated_query (Oid bob) alice)
     (notifications (run_phases example_calls (Oid bob)
        [Find Thread1, Find Thread2, Write Thread1, Write Thread2] (\<lambda>t. None) example_db))) = 2
   \<and> map (\<lambda>n. d_message_count (n_data n))
       (notifications (run_phases example_calls (Oid bob)
        [Find Thread1, Find Thread2, Write Thread1, Write Thread2] (\<lambda>t. None) example_db))
       = [Some 1, Some 1]
   \<and> map (\<lambda>n. d_message_count (n_data n))
       (notifications (run_phases example_calls (Oid bob)
        [Find Thread1, Write Thread1, Find Thread2, Write Thread2] (\<lambda>t. None) example_db))
       = [Some 2]"
  by (simp add: example_calls_def consolidator_simps example_simps)

section \<open>The example servers\<close>

lemmas server_simps =
  chat_server_def own_room_server_def two_tabs_server_def read_server_def connect_as_def
  empty_server_def handle_connect_def handle_join_chat_def join_room_def socket_connect_def
  alice_def bob_def lobby_def

lemma chat_server_rooms:
  "rooms chat_server lobby = {|''sidA'', ''sidB''|}"
  "rooms chat_server ''sidA'' = {|''sidA''|}"
  "rooms chat_server ''sidB'' = {|''sidB''|}"
  "rooms chat_server bob = {||}"
  "rooms chat_server alice = {||}"
  "rooms chat_server ''abc'' = {||}"
  by (auto simp: server_simps)

lemma chat_server_clients:
  "connected_clients chat_server ''sidA'' = Some alice"
  "connected_clients chat_server ''sidB'' = Some bob"
  "sockets chat_server = {|''sidA'', ''sidB''|}"
  "encodes_first chat_server = False"
  by (auto simp: server_simps)

lemma chat_server_database:
  "database chat_server =
     example_db\<lparr>user_profiles :=
       [(example_profile alice ''alice'' (Some ''Alice''))\<lparr>p_is_online := True, p_last_seen := Some 1, p_status := Some ''online''\<rparr>,
        (example_profile bob ''bob'' None)\<lparr>p_is_online := True, p_last_seen := Some 1, p_status := Some ''online''\<rparr>]\<rparr>"
  by (simp add: chat_server_def connect_as_def handle_connect_def handle_join_chat_def join_room_def
      socket_connect_def empty_server_def update_user_status_def ObjectId_alice ObjectId_bob Let_def
      example_db_def example_profile_def)
     (simp add: alice_def bob_def)

lemma own_room_server_facts:
  "rooms own_room_server lobby = {|''sidA'', ''sidB''|}"
  "rooms own_room_server ''sidA'' = {|''sidA''|}"
  "rooms own_room_server bob = {|''sidB''|}"
  "connected_clients own_room_server ''sidA'' = Some alice"
  "connected_clients own_room_server ''sidB'' = Some bob"
  "encodes_first own_room_server = False"
  "database own_room_server = database chat_server"
  by (auto simp: server_simps)

lemma nonempty_examples: "lobby \<noteq> []" "alice \<noteq> []" "bob \<noteq> []" "alice \<noteq> bob"
  by (simp_all add: lobby_def alice_def bob_def)

lemma create_message_lobby:
  "create_message 7 (example_ids 0) (database chat_server) lobby alice content ''text''
   = (Some \<lparr>m_id = Oid ''eeeeeeeeeeeeeeeeeeeeeee0'', m_chat_id = Oid lobby, m_sender_id = Oid alice,
        m_content = content, m_message_type = ''text'', m_timestamp = 7, m_is_edited = False,
        m_is_deleted = False, m_read_by = []\<rparr>,
      (database chat_server)\<lparr>messages := [\<lparr>m_id = Oid ''eeeeeeeeeeeeeeeeeeeeeee0'', m_chat_id = Oid lobby, m_sender_id = Oid alice,
        m_content = content, m_message_type = ''text'', m_timestamp = 7, m_is_edited = False,
        m_is_deleted = False, m_read_by = []\<rparr>],
        chats := [\<lparr>c_id = Oid lobby, c_participants = [Oid alice, Oid bob], c_name = None,
                c_is_group = None, c_last_activity = Some 7\<rparr>]\<rparr>)"
  by (simp add: create_message_def ObjectId_lobby ObjectId_alice Let_def insert_one_def
      chat_server_database example_db_def example_ids_def)

lemma hello_db_eq:
  "hello_db = (database chat_server)\<lparr>messages := [\<lparr>m_id = Oid ''eeeeeeeeeeeeeeeeeeeeeee0'', m_chat_id = Oid lobby, m_sender_id = Oid alice,
        m_content = ''hello'', m_message_type = ''text'', m_timestamp = 7, m_is_edited = False,
        m_is_deleted = False, m_read_by = []\<rparr>],
        chats := [\<lparr>c_id = Oid lobby, c_participants = [Oid alice, Oid bob], c_name = None,
                c_is_group = None, c_last_activity = Some 7\<rparr>]\<rparr>"
  by (simp add: hello_db_def create_message_lobby)

lemma hello_db_facts:
  "get_chat hello_db lobby alice
     = Some \<lparr>ci_id = lobby, ci_participants = [alice, bob], ci_name = Some None\<rparr>"
  "display_name_of (get_user_profile hello_db alice) = Some ''Alice''"
  "map m_content (messages hello_db) = [''hello'']"
  "notifications hello_db = []"
  using nonempty_examples
  by (simp_all add: hello_db_eq get_chat_def get_user_profile_def
      ObjectId_lobby ObjectId_alice ObjectId_bob Let_def chat_server_database example_db_def
      example_profile_def display_name_of_def)

lemma hello_notified_facts:
  "fst hello_notified \<noteq> None"
  "get_unread_notifications_count (snd hello_notified) bob = 1"
  "map m_content (messages (snd hello_notified)) = [''hello'']"
  by (simp_all add: hello_notified_def consolidator_simps ObjectId_bob insert_one_def
      hello_db_facts get_unread_notifications_count_def)

text \<open>
  What the two handlers do with alice's \<open>hello\<close> on a server that holds the store of
  the example: whether the emit of bob's notification raises decides between
  \<^verbatim>\<open>message_error\<close> and the two \<^verbatim>\<open>new_message\<close> events.
\<close>

lemma send_hello:
  assumes "database srv = database chat_server"
  shows "handle_send_message 7 example_ids ''sidA'' (Some alice) lobby ''hello'' ''text'' srv
     = (srv\<lparr>database := snd hello_notified\<rparr>,
        if emit_raises srv (emit_room srv ''sidA'' ''notification_updated''
              (NotificationUpdated (fst hello_notified)) bob True)
        then [emit_room srv ''sidA'' ''message_error'' (ErrorMessage ''Failed to send message'')
                ''sidA'' True]
        else [emit_room srv ''sidA'' ''notification_updated''
                (NotificationUpdated (fst hello_notified)) bob True,
              emit_room srv ''sidA'' ''new_message'' (MessageData hello_md) lobby False,
              emit_room srv ''sidA'' ''new_message'' (MessageData hello_md) ''sidA'' True])"
proof -
  have c: "create_message 7 (example_ids 0) (database srv) lobby alice ''hello'' ''text''
       = (Some \<lparr>m_id = Oid ''eeeeeeeeeeeeeeeeeeeeeee0'', m_chat_id = Oid lobby, m_sender_id = Oid alice,
        m_content = ''hello'', m_message_type = ''text'', m_timestamp = 7, m_is_edited = False,
        m_is_deleted = False, m_read_by = []\<rparr>, hello_db)"
    unfolding assms hello_db_def by (simp add: create_message_lobby)
  show ?thesis
    using nonempty_examples
    by (simp add: handle_send_message_def send_message_with_def c hello_db_facts Let_def
        numeral_2_eq_2 hello_notified_def hello_md_def)
qed

lemma send_hello_first:
  assumes "database srv = database chat_server"
  shows "handle_send_message_first 7 example_ids ''sidA'' (Some alice) lobby ''hello'' ''text'' srv
     = (srv\<lparr>database := snd hello_notified\<rparr>,
        if emit_raises srv (emit_room srv ''sidA'' ''notification_updated''
              (NotificationUpdated (fst hello_notified)) bob True)
        then [emit_room srv ''sidA'' ''message_error'' (ErrorMessage ''Failed to send message'')
                ''sidA'' True]
        else [emit_room srv ''sidA'' ''notification_updated''
                (NotificationUpdated (fst hello_notified)) bob True,
              emit_room srv ''sidA'' ''notification_badge_updated'' (BadgeUpdated 1) bob True,
              emit_room srv ''sidA'' ''new_message'' (MessageData hello_md) lobby False,
              emit_room srv ''sidA'' ''new_message'' (MessageData hello_md) ''sidA'' True])"
proof -
  have c: "create_message 7 (example_ids 0) (database srv) lobby alice ''hello'' ''text''
       = (Some \<lparr>m_id = Oid ''eeeeeeeeeeeeeeeeeeeeeee0'', m_chat_id = Oid lobby, m_sender_id = Oid alice,
        m_content = ''hello'', m_message_type = ''text'', m_timestamp = 7, m_is_edited = False,
        m_is_deleted = False, m_read_by = []\<rparr>, hello_db)"
    unfolding assms hello_db_def by (simp add: create_message_lobby)
  obtain n where n: "fst hello_notified = Some n"
    using hello_notified_facts(1) by auto
  have n': "fst (create_consolidated_message_notification 7 (example_ids (Suc (Suc 0))) hello_db hello_md bob) = Some n"
    using n by (simp add: hello_notified_def numeral_2_eq_2)
  have cnt: "get_unread_notifications_count
       (snd (create_consolidated_message_notification 7 (example_ids (Suc (Suc 0))) hello_db hello_md bob)) bob = 1"
    using hello_notified_facts(2) by (simp add: hello_notified_def numeral_2_eq_2)
  have snd': "snd (create_consolidated_message_notification 7 (example_ids (Suc (Suc 0))) hello_db hello_md bob)
      = snd hello_notified"
    by (simp add: hello_notified_def numeral_2_eq_2)
  have md: "\<lparr>md_message_id = ''eeeeeeeeeeeeeeeeeeeeeee0'', md_chat_id = lobby,
       md_sender_id = alice, md_sender_username = Some ''Alice'', md_content = ''hello'',
       md_type = ''text'', md_timestamp = 7, md_chat_name = None\<rparr> = hello_md"
    by (simp add: hello_md_def)
  show ?thesis
    using nonempty_examples
    by (simp add: handle_send_message_first_def send_message_with_def c hello_db_facts Let_def
        md n n' cnt snd' hello_notified_facts(2))
qed

section \<open>The send_message handlers on an example\<close>

text \<open>
  C7. Alice, connected and in the room of the chat, sends \<open>hello\<close> with the chat id
  \<open>abc\<close>, which is no object id: \<^verbatim>\<open>create_message\<close> fails and returns
  \<^verbatim>\<open>None\<close>. Both \<^verbatim>\<open>send_message\<close> handlers then leave the server as it was
  and emit no event at all: no \<^verbatim>\<open>new_message\<close>, no \<^verbatim>\<open>notification_updated\<close>,
  and no \<^verbatim>\<open>message_error\<close> either.
\<close>

theorem failed_persistence_emits_nothing:
  "fst (create_message 7 (example_ids 0) (database chat_server) ''abc'' alice ''hello'' ''text'') = None
   \<and> handle_send_message 7 example_ids ''sidA'' (Some alice) ''abc'' ''hello'' ''text'' chat_server
       = (chat_server, [])
   \<and> handle_send_message_first 7 example_ids ''sidA'' (Some alice) ''abc'' ''hello'' ''text'' chat_server
       = (chat_server, [])"
  by (simp add: handle_send_message_def handle_send_message_first_def send_message_with_def
      create_message_def ObjectId_def)

text \<open>
  C3. Bob is connected and authenticated on \<open>sidB\<close> (and has joined the room of the
  chat). Alice sends \<open>hello\<close> to the chat. The handler stores bob's notification and
  emits \<^verbatim>\<open>notification_updated\<close> to the room named by bob's user id; that room has
  no member, so the event is delivered to no connection, bob's among them. Only the two
  \<^verbatim>\<open>new_message\<close> events reach a connection. With a library that encodes first,
  the emit of bob's notification raises instead: the handler stores the notification,
  delivers nothing to bob and answers alice with \<^verbatim>\<open>message_error\<close>.
\<close>

theorem notification_updated_reaches_no_connection:
  "connected_clients chat_server ''sidB'' = Some bob
   \<and> map (\<lambda>e. (e_event e, e_targets e))
       (snd (handle_send_message 7 example_ids ''sidA'' (Some alice) lobby ''hello'' ''text'' chat_server))
     = [(''notification_updated'', {||}), (''new_message'', {|''sidB''|}), (''new_message'', {|''sidA''|})]
   \<and> deliveries ''notification_updated'' ''sidB''
       (snd (handle_send_message 7 example_ids ''sidA'' (Some alice) lobby ''hello'' ''text'' chat_server)) = 0
   \<and> get_unread_notifications_count
       (database (fst (handle_send_message 7 example_ids ''sidA'' (Some alice) lobby ''hello'' ''text'' chat_server)))
       bob = 1
   \<and> map (\<lambda>e. (e_event e, e_targets e))
       (snd (handle_send_message 7 example_ids ''sidA'' (Some alice) lobby ''hello'' ''text''
               (chat_server\<lparr>encodes_first := True\<rparr>)))
     = [(''message_error'', {|''sidA''|})]
   \<and> get_unread_notifications_count
       (database (fst (handle_send_message 7 example_ids ''sidA'' (Some alice) lobby ''hello'' ''text''
               (chat_server\<lparr>encodes_first := True\<rparr>))))
       bob = 1"
proof -
  obtain n where n: "fst hello_notified = Some n"
    using hello_notified_facts(1) by auto
  have lazy: "\<not> emit_raises chat_server (emit_room chat_server ''sidA'' ''notification_updated''
              (NotificationUpdated (fst hello_notified)) bob True)"
    by (simp add: emit_raises_def emit_room_def chat_server_rooms chat_server_clients)
  have first: "emit_raises (chat_server\<lparr>encodes_first := True\<rparr>)
          (emit_room (chat_server\<lparr>encodes_first := True\<rparr>) ''sidA'' ''notification_updated''
              (NotificationUpdated (fst hello_notified)) bob True)"
    by (simp add: emit_raises_def emit_room_def encodable_def n)
  have d: "database (chat_server\<lparr>encodes_first := True\<rparr>) = database chat_server" by simp
  show ?thesis
    unfolding send_hello[OF refl] send_hello[OF d]
    using lazy first
    by (simp add: emit_room_def chat_server_rooms chat_server_clients deliveries_def
        hello_notified_facts)
qed

section \<open>Read receipts\<close>

text \<open>
  C6. The store holds a message that alice sent and that nobody has read. Alice herself
  sends \<^verbatim>\<open>message_read\<close> for it: she is newly added to \<^verbatim>\<open>read_by\<close>,
  \<^verbatim>\<open>mark_message_as_read\<close> reports success (it creates no notification, because the
  reader is the sender), and the handler emits \<^verbatim>\<open>message_read_receipt\<close> to the room
  of the sender. A second \<^verbatim>\<open>message_read\<close> of the same reader emits nothing.
\<close>

theorem own_message_read_emits_receipt:
  "map (\<lambda>e. (e_event e, e_payload e))
     (snd (handle_message_read 4 (example_ids 1) ''sidA'' (Some alice)
             ''eeeeeeeeeeeeeeeeeeeeeee0'' read_server))
     = [(''message_read_receipt'', ReadReceipt ''eeeeeeeeeeeeeeeeeeeeeee0'' alice lobby 4)]
   \<and> map m_sender_id (messages (database read_server)) = [Oid alice]
   \<and> notifications (database (fst (handle_message_read 4 (example_ids 1) ''sidA'' (Some alice)
             ''eeeeeeeeeeeeeeeeeeeeeee0'' read_server))) = []
   \<and> snd (handle_message_read 5 (example_ids 2) ''sidA'' (Some alice) ''eeeeeeeeeeeeeeeeeeeeeee0''
        (fst (handle_message_read 4 (example_ids 1) ''sidA'' (Some alice)
             ''eeeeeeeeeeeeeeeeeeeeeee0'' read_server))) = []"
  by (simp add: handle_message_read_def mark_message_as_read_def read_server_def message_db_eq
      ObjectId_e0 ObjectId_alice Let_def modified_count_one_def add_to_read_by_def
      example_db_def emit_room_def)

section \<open>Presence\<close>







section \<open>Delivery of a new message\<close>

text \<open>
  C1. Alice and bob are connected, authenticated and in the room of the chat, and bob's
  connection has also joined the room named by bob's user id. Alice sends \<open>hello\<close>.
  The message is persisted and bob's notification stored, but the emit of
  \<^verbatim>\<open>notification_updated\<close> raises on the notification, which \<^verbatim>\<open>json\<close> cannot
  encode: both \<^verbatim>\<open>send_message\<close> handlers end in their \<^verbatim>\<open>except\<close> branch, with
  either library. The only event is \<^verbatim>\<open>message_error\<close> to alice's connection;
  \<^verbatim>\<open>new_message\<close> is delivered to no connection, neither to bob's, a member of the
  room, nor to alice's, the originating one.
\<close>

theorem unencodable_notification_stops_fan_out:
  "connected_clients own_room_server ''sidA'' = Some alice
   \<and> connected_clients own_room_server ''sidB'' = Some bob
   \<and> rooms own_room_server lobby = {|''sidA'', ''sidB''|}
   \<and> list_all
        (\<lambda>srv.
           list_all
             (\<lambda>handler.
                map (\<lambda>e. (e_event e, e_targets e))
                  (snd (handler 7 example_ids ''sidA'' (Some alice) lobby ''hello'' ''text'' srv))
                  = [(''message_error'', {|''sidA''|})]
                \<and> deliveries ''new_message'' ''sidA''
                    (snd (handler 7 example_ids ''sidA'' (Some alice) lobby ''hello'' ''text'' srv)) = 0
                \<and> deliveries ''new_message'' ''sidB''
                    (snd (handler 7 example_ids ''sidA'' (Some alice) lobby ''hello'' ''text'' srv)) = 0
                \<and> total_deliveries ''new_message''
                    (snd (handler 7 example_ids ''sidA'' (Some alice) lobby ''hello'' ''text'' srv)) = 0
                \<and> map m_content
                    (messages (database
                       (fst (handler 7 example_ids ''sidA'' (Some alice) lobby ''hello'' ''text'' srv))))
                  = [''hello'']
                \<and> get_unread_notifications_count
                    (database
                       (fst (handler 7 example_ids ''sidA'' (Some alice) lobby ''hello'' ''text'' srv)))
                    bob = 1)
             [handle_send_message, handle_send_message_first])
        [own_room_server, own_room_server\<lparr>encodes_first := True\<rparr>]"
proof -
  obtain n where n: "fst hello_notified = Some n"
    using hello_notified_facts(1) by auto
  have lazy: "emit_raises own_room_server (emit_room own_room_server ''sidA'' ''notification_updated''
              (NotificationUpdated (fst hello_notified)) bob True)"
    by (simp add: emit_raises_def emit_room_def encodable_def n own_room_server_facts)
  have first: "emit_raises (own_room_server\<lparr>encodes_first := True\<rparr>)
          (emit_room (own_room_server\<lparr>encodes_first := True\<rparr>) ''sidA'' ''notification_updated''
              (NotificationUpdated (fst hello_notified)) bob True)"
    by (simp add: emit_raises_def emit_room_def encodable_def n)
  have d: "database (own_room_server\<lparr>encodes_first := True\<rparr>) = database chat_server"
    by (simp add: own_room_server_facts)
  note d0 = own_room_server_facts(7)
  show ?thesis
    unfolding list.pred_inject send_hello[OF d0] send_hello[OF d]
      send_hello_first[OF d0] send_hello_first[OF d]
    using lazy first
    by (simp add: emit_room_def own_room_server_facts deliveries_def total_deliveries_def
        hello_notified_facts)
qed

end
